theory Spec2Isabelle
  imports Complex_Main
begin

section \<open>Numbers and errors of the notebooks\<close>

text \<open>
  The notebooks compute with Python and NumPy double-precision numbers.  The mesh
  construction is modelled in two ways.  In the first, which the properties of lengths,
  of disjointness and of independence from the state are proved about, the numbers are
  the real numbers and \<open>+\<close>, \<open>-\<close>, \<open>*\<close>, \<open>/\<close> are exact; these properties do
  not depend on rounding.  The special values that NumPy produces at the edges of a
  function's domain (\<open>log2 0 = -inf\<close>, \<open>log2\<close> of a negative number is NaN) are
  written out as branches, the result of \<open>log2\<close> is a parameter, and every Python
  exception is a value of \<open>py_error\<close>.  In the second (section "The grid and the masks
  in double precision") every operation is followed by the rounding of IEEE 754; it is
  used where a comparison of two computed numbers decides the result.
\<close>

datatype py_error = ZeroDivisionError | ValueError | OverflowError | IndexError | KeyError

text \<open>Division of two Python floats: a zero divisor raises.\<close>

definition float_div :: "real \<Rightarrow> real \<Rightarrow> py_error + real" where
  "float_div a b = (if b = 0 then Inl ZeroDivisionError else Inr (a / b))"

text \<open>Python's \<open>int\<close> of a finite float truncates towards zero.\<close>

definition py_int :: "real \<Rightarrow> int" where
  "py_int v = (if 0 \<le> v then \<lfloor>v\<rfloor> else \<lceil>v\<rceil>)"

text \<open>
  \<open>int(np.power(2, np.ceil(np.log2(r))))\<close>.  \<open>np.log2\<close> is a library function
  whose rounding IEEE 754 does not fix; what it returns on a positive argument is the
  parameter \<open>lg\<close>.  \<open>np.ceil\<close> is exact.  \<open>np.power(2, k)\<close> for a whole
  number \<open>k\<close> is the exact power of two as long as that is a double; below the
  smallest double it is 0 or a subnormal number, of which \<open>int\<close> makes 0 as of every
  power with a negative exponent; from \<open>k = 1024\<close> on it is \<open>inf\<close>, and \<open>int\<close>
  raises OverflowError.  For \<open>r = 0\<close> NumPy gives \<open>log2 0 = -inf\<close>, \<open>ceil\<close>
  keeps it, \<open>power(2, -inf) = 0.0\<close> and \<open>int\<close> returns 0; for \<open>r < 0\<close> the
  logarithm is NaN and \<open>int\<close> of NaN raises ValueError.
\<close>

definition pow2_ceil_log2 :: "(real \<Rightarrow> real) \<Rightarrow> real \<Rightarrow> py_error + int" where
  "pow2_ceil_log2 lg r =
     (if r < 0 then Inl ValueError
      else if r = 0 then Inr 0
      else let k = \<lceil>lg r\<rceil> in
        if 1024 \<le> k then Inl OverflowError
        else Inr (py_int (2 powr real_of_int k)))"

text \<open>
  The element count of both asperity notebooks:
  \<open>N = int(np.power(2, np.ceil(np.log2(resolution * L / Lb))))\<close>.
\<close>

definition mesh_elements :: "(real \<Rightarrow> real) \<Rightarrow> real \<Rightarrow> real \<Rightarrow> real \<Rightarrow> py_error + int" where
  "mesh_elements lg resolution L Lb =
     (case float_div (resolution * L) Lb of
        Inl e \<Rightarrow> Inl e
      | Inr r \<Rightarrow> pow2_ceil_log2 lg r)"

section \<open>The coordinate grid and the asperity masks\<close>

text \<open>
  \<open>np.linspace(start, stop, num)\<close> with the end point included: \<open>num\<close> evenly
  spaced samples, the \<open>i\<close>-th being \<open>start + i * step\<close> with
  \<open>step = (stop - start) / (num - 1)\<close>; a single sample is \<open>start\<close>, no sample
  is the empty array, and a negative \<open>num\<close> raises ValueError.  The entries are
  the exact values; NumPy rounds each of them (\<open>fl_linspace\<close> below), which changes
  neither their number nor their order.
\<close>

definition linspace :: "real \<Rightarrow> real \<Rightarrow> int \<Rightarrow> py_error + real list" where
  "linspace start stop num =
     (if num < 0 then Inl ValueError
      else if num = 1 then Inr [start]
      else Inr (map (\<lambda>i. start + real i * ((stop - start) / real (nat num - 1)))
                 [0 ..< nat num]))"

text \<open>
  The geometry of the double-asperity notebook: \<open>L1 = 0.5 * f * L\<close>,
  \<open>L2 = 0.5 * (1 - f) * L\<close>, \<open>p1 = L / 3 - L / 2\<close>, \<open>p2 = 2 * L / 3 - L / 2\<close>.
\<close>

definition L1 :: "real \<Rightarrow> real \<Rightarrow> real" where
  "L1 L f = 0.5 * f * L"

definition L2 :: "real \<Rightarrow> real \<Rightarrow> real" where
  "L2 L f = 0.5 * (1 - f) * L"

definition p1 :: "real \<Rightarrow> real" where
  "p1 L = L / 3 - L / 2"

definition p2 :: "real \<Rightarrow> real" where
  "p2 L = 2 * L / 3 - L / 2"

text \<open>
  One entry of \<open>asp1 = (x > (p1 - L1 / 2)) & (x < (p1 + L1 / 2))\<close> and of
  \<open>asp2 = (x > (p2 - L2 / 2)) & (x < (p2 + L2 / 2))\<close>, and the two arrays, with
  the exact bounds; the rounded bounds are those of \<open>fl_in_asp1\<close> and
  \<open>fl_in_asp2\<close> below.
\<close>

definition in_asp1 :: "real \<Rightarrow> real \<Rightarrow> real \<Rightarrow> bool" where
  "in_asp1 L f xi = (xi > p1 L - L1 L f / 2 \<and> xi < p1 L + L1 L f / 2)"

definition in_asp2 :: "real \<Rightarrow> real \<Rightarrow> real \<Rightarrow> bool" where
  "in_asp2 L f xi = (xi > p2 L - L2 L f / 2 \<and> xi < p2 L + L2 L f / 2)"

definition asp1 :: "real \<Rightarrow> real \<Rightarrow> real list \<Rightarrow> bool list" where
  "asp1 L f x = map (in_asp1 L f) x"

definition asp2 :: "real \<Rightarrow> real \<Rightarrow> real list \<Rightarrow> bool list" where
  "asp2 L f x = map (in_asp2 L f) x"

text \<open>
  \<open>a + b\<close> on two NumPy boolean arrays of one length: addition of booleans is the
  logical or, entry by entry.
\<close>

definition bool_add :: "bool list \<Rightarrow> bool list \<Rightarrow> bool list" where
  "bool_add a b = map (\<lambda>(u, v). u \<or> v) (zip a b)"

text \<open>The index array \<open>asp1 + asp2\<close> of the double-asperity notebook.\<close>

definition asp_mask :: "real \<Rightarrow> real \<Rightarrow> real list \<Rightarrow> bool list" where
  "asp_mask L f x = bool_add (asp1 L f x) (asp2 L f x)"

text \<open>The number of selected entries of a boolean index array.\<close>

definition count_true :: "bool list \<Rightarrow> nat" where
  "count_true m = length (filter (\<lambda>u. u) m)"

section \<open>The grid and the masks in double precision\<close>

text \<open>
  Rounding of a real number to the nearest whole number, a tie going to the even one,
  and to the nearest double: 53 significant bits, the spacing \<open>2 ^ -1074\<close> of the
  subnormal numbers below \<open>2 ^ -1022\<close>.  Overflow to infinity is not modelled: \<open>rd\<close>
  is the rounding of the code for results below \<open>2 ^ 1024\<close> in absolute value.  The
  value of a decimal literal of Python, as \<open>0.2\<close>, is \<open>rd\<close> of the decimal number.
\<close>

definition rne :: "real \<Rightarrow> int" where
  "rne y = (let n = \<lfloor>y\<rfloor>; d = y - of_int n
            in if d < 1 / 2 then n else if 1 / 2 < d then n + 1
               else if even n then n else n + 1)"

definition rd :: "real \<Rightarrow> real" where
  "rd v = (if v = 0 then 0
           else let e = max (\<lfloor>log 2 \<bar>v\<bar>\<rfloor> - 52) (- 1074)
                in of_int (rne (v / 2 powr of_int e)) * 2 powr of_int e)"

text \<open>
  The lines of the double-asperity notebook that lead to the masks, each operation
  rounded: \<open>Lb = MU * DC / (B * SIGMA)\<close>, \<open>Lc = Lb / cab_ratio\<close> with
  \<open>cab_ratio = 1 - ab_ratio\<close>, \<open>L *= Lc\<close>, and the argument
  \<open>resolution * L / Lb\<close> of \<open>log2\<close>.
\<close>

definition fl_Lb :: "real \<Rightarrow> real \<Rightarrow> real \<Rightarrow> real \<Rightarrow> real" where
  "fl_Lb mu dc b sigma = rd (rd (mu * dc) / rd (b * sigma))"

definition fl_fault_length :: "real \<Rightarrow> real \<Rightarrow> real \<Rightarrow> real" where
  "fl_fault_length Lb ab_ratio L = rd (L * rd (Lb / rd (1 - ab_ratio)))"

definition fl_ratio :: "real \<Rightarrow> real \<Rightarrow> real \<Rightarrow> real" where
  "fl_ratio resolution L Lb = rd (rd (resolution * L) / Lb)"

text \<open>
  \<open>L1 = 0.5 * f * L\<close>, \<open>L2 = 0.5 * (1 - f) * L\<close>, \<open>p1 = L / 3 - L / 2\<close>,
  \<open>p2 = 2 * L / 3 - L / 2\<close>, and one entry of \<open>asp1\<close> and of \<open>asp2\<close>.
\<close>

definition fl_L1 :: "real \<Rightarrow> real \<Rightarrow> real" where
  "fl_L1 L f = rd (rd (1 / 2 * f) * L)"

definition fl_L2 :: "real \<Rightarrow> real \<Rightarrow> real" where
  "fl_L2 L f = rd (rd (1 / 2 * rd (1 - f)) * L)"

definition fl_p1 :: "real \<Rightarrow> real" where
  "fl_p1 L = rd (rd (L / 3) - rd (L / 2))"

definition fl_p2 :: "real \<Rightarrow> real" where
  "fl_p2 L = rd (rd (rd (2 * L) / 3) - rd (L / 2))"

definition fl_in_asp1 :: "real \<Rightarrow> real \<Rightarrow> real \<Rightarrow> bool" where
  "fl_in_asp1 L f xi =
     (xi > rd (fl_p1 L - rd (fl_L1 L f / 2)) \<and> xi < rd (fl_p1 L + rd (fl_L1 L f / 2)))"

definition fl_in_asp2 :: "real \<Rightarrow> real \<Rightarrow> real \<Rightarrow> bool" where
  "fl_in_asp2 L f xi =
     (xi > rd (fl_p2 L - rd (fl_L2 L f / 2)) \<and> xi < rd (fl_p2 L + rd (fl_L2 L f / 2)))"

text \<open>
  \<open>np.linspace(start, stop, num)\<close> as NumPy computes it: \<open>delta = stop - start\<close>,
  \<open>step = delta / (num - 1)\<close>, the entries \<open>i * step + start\<close> (or
  \<open>i / (num - 1) * delta + start\<close> when \<open>step\<close> is rounded to zero), and the last
  entry overwritten by \<open>stop\<close>; with a single sample, \<open>i * delta + start\<close>.
\<close>

definition fl_point :: "real \<Rightarrow> real \<Rightarrow> nat \<Rightarrow> nat \<Rightarrow> real" where
  "fl_point start stop num i =
     (let delta = rd (stop - start) in
      if num = 1 then rd (rd (real i * delta) + start)
      else if i = num - 1 then stop
      else let step = rd (delta / real (num - 1)) in
        if step = 0 then rd (rd (rd (real i / real (num - 1)) * delta) + start)
        else rd (rd (real i * step) + start))"

definition fl_linspace :: "real \<Rightarrow> real \<Rightarrow> nat \<Rightarrow> real list" where
  "fl_linspace start stop num = map (fl_point start stop num) [0 ..< num]"

text \<open>\<open>x = np.linspace(-L/2, L/2, N)\<close> and the index array \<open>asp1 + asp2\<close>.\<close>

definition fl_grid :: "real \<Rightarrow> nat \<Rightarrow> real list" where
  "fl_grid L N = fl_linspace (rd ((- L) / 2)) (rd (L / 2)) N"

definition fl_asp_mask :: "real \<Rightarrow> real \<Rightarrow> real list \<Rightarrow> bool list" where
  "fl_asp_mask L f x = bool_add (map (fl_in_asp1 L f) x) (map (fl_in_asp2 L f) x)"

text \<open>
  The process zone width of the notebook (\<open>MU = 3e10\<close>, \<open>DC = 4e-4\<close>,
  \<open>B = 1e-2\<close>, \<open>SIGMA = 1e8\<close>), and its fault length when the fault is 5
  nucleation lengths long (\<open>L = 5\<close>, \<open>ab_ratio = 0.8\<close>).
\<close>

definition Lb_notebook :: real where
  "Lb_notebook = fl_Lb (3 * 10 ^ 10) (rd (4 / 10 ^ 4)) (rd (1 / 10 ^ 2)) (10 ^ 8)"

definition L_five :: real where
  "L_five = fl_fault_length Lb_notebook (rd (8 / 10)) 5"

section \<open>The settings dictionary and the mesh of the asperity notebooks\<close>

text \<open>
  \<open>p.set_dict\<close> is a dictionary of global settings; its entry \<open>SET_DICT_RSF\<close> is
  a second dictionary with the rate-and-state parameters.  Both are finite maps from key
  strings to numbers.  What the wrapper put there before the notebook runs is not known:
  the initial dictionary is an argument of every function below.
\<close>

record set_dict =
  main :: "string \<rightharpoonup> real"
  set_dict_rsf :: "string \<rightharpoonup> real"

definition set_item :: "set_dict \<Rightarrow> string \<Rightarrow> real \<Rightarrow> set_dict" where
  "set_item d k v = d\<lparr>main := (main d)(k \<mapsto> v)\<rparr>"

definition set_rsf :: "set_dict \<Rightarrow> string \<Rightarrow> real \<Rightarrow> set_dict" where
  "set_rsf d k v = d\<lparr>set_dict_rsf := (set_dict_rsf d)(k \<mapsto> v)\<rparr>"

definition get_item :: "set_dict \<Rightarrow> string \<Rightarrow> py_error + real" where
  "get_item d k = (case main d k of None \<Rightarrow> Inl KeyError | Some v \<Rightarrow> Inr v)"

definition get_rsf :: "set_dict \<Rightarrow> string \<Rightarrow> py_error + real" where
  "get_rsf d k = (case set_dict_rsf d k of None \<Rightarrow> Inl KeyError | Some v \<Rightarrow> Inr v)"

text \<open>Sequencing of two steps of which the first may raise.\<close>

definition and_then :: "py_error + 'a \<Rightarrow> ('a \<Rightarrow> py_error + 'b) \<Rightarrow> py_error + 'b" where
  "and_then m k = (case m of Inl e \<Rightarrow> Inl e | Inr v \<Rightarrow> k v)"

text \<open>
  The numbers a user of the two notebooks chooses: the predefined parameters at the top
  of the cell (\<open>Lasp\<close>, \<open>L\<close>, \<open>ab_ratio\<close>, \<open>resolution\<close>, and \<open>f\<close>) and the
  physical constants written into the dictionary.  The single-asperity notebook has no
  \<open>f\<close> and the double-asperity notebook has no \<open>Lasp\<close>; the field is not read
  there.
\<close>

record params =
  c_Lasp :: real
  c_L :: real
  c_ab_ratio :: real
  c_resolution :: real
  c_f :: real
  c_V_PL :: real
  c_MU :: real
  c_SIGMA :: real
  c_A :: real
  c_B :: real
  c_DC :: real

definition t_yr :: real where
  "t_yr = 3600 * 24 * 365"

definition single_params :: params where
  "single_params = \<lparr>c_Lasp = 7, c_L = 5, c_ab_ratio = 8 / 10, c_resolution = 7, c_f = 0,
     c_V_PL = 1 / 10 ^ 9, c_MU = 3 * 10 ^ 10, c_SIGMA = 10 ^ 8,
     c_A = 9 / 1000, c_B = 1 / 100, c_DC = 4 / 10 ^ 4\<rparr>"

definition double_params :: params where
  "double_params = \<lparr>c_Lasp = 0, c_L = 15, c_ab_ratio = 8 / 10, c_resolution = 7, c_f = 1 / 2,
     c_V_PL = 1 / 10 ^ 9, c_MU = 3 * 10 ^ 10, c_SIGMA = 10 ^ 8,
     c_A = 12 / 1000, c_B = 1 / 100, c_DC = 4 / 10 ^ 4\<rparr>"

text \<open>A run of assignments \<open>set_dict[k] = v\<close>, in the order of the source.\<close>

definition set_items :: "(string \<times> real) list \<Rightarrow> set_dict \<Rightarrow> set_dict" where
  "set_items kvs d = fold (\<lambda>(k, v) d'. set_item d' k v) kvs d"

definition set_rsfs :: "(string \<times> real) list \<Rightarrow> set_dict \<Rightarrow> set_dict" where
  "set_rsfs kvs d = fold (\<lambda>(k, v) d'. set_rsf d' k v) kvs d"

text \<open>
  The last two assignments of the configuration step, shared by both notebooks:
  \<open>set_dict["SET_DICT_RSF"]["V_SS"] = set_dict["V_PL"]\<close> and
  \<open>set_dict["SET_DICT_RSF"]["TH_0"] = set_dict["SET_DICT_RSF"]["DC"] / set_dict["V_PL"]\<close>.
\<close>

definition derive_rsf :: "set_dict \<Rightarrow> py_error + set_dict" where
  "derive_rsf d =
     and_then (get_item d ''V_PL'') (\<lambda>v.
       let d1 = set_rsf d ''V_SS'' v in
       and_then (get_rsf d1 ''DC'') (\<lambda>dc.
       and_then (get_item d1 ''V_PL'') (\<lambda>v'.
       and_then (float_div dc v') (\<lambda>th0.
         Inr (set_rsf d1 ''TH_0'' th0)))))"

text \<open>Step 1 of the single-asperity notebook, on the dictionary \<open>d\<close> of the wrapper.\<close>

definition single_configure :: "params \<Rightarrow> set_dict \<Rightarrow> py_error + set_dict" where
  "single_configure ps d =
     derive_rsf
       (set_rsfs [(''A'', c_A ps), (''B'', c_B ps), (''DC'', c_DC ps)]
         (set_items
           [(''MESHDIM'', 1), (''FINITE'', 0), (''TMAX'', 15 * t_yr), (''NTOUT'', 100),
            (''NXOUT'', 2), (''V_PL'', c_V_PL ps), (''MU'', c_MU ps), (''W'', 50 * 10 ^ 3),
            (''SIGMA'', c_SIGMA ps), (''ACC'', 1 / 10 ^ 7), (''SOLVER'', 2)] d))"

text \<open>Step 1 of the double-asperity notebook.\<close>

definition double_configure :: "params \<Rightarrow> set_dict \<Rightarrow> py_error + set_dict" where
  "double_configure ps d =
     derive_rsf
       (set_rsfs [(''A'', c_A ps), (''B'', c_B ps), (''DC'', c_DC ps)]
         (set_items
           [(''MESHDIM'', 1), (''FINITE'', 1), (''TMAX'', 25 * t_yr), (''NTOUT'', 100),
            (''NXOUT'', 2), (''V_PL'', c_V_PL ps), (''MU'', c_MU ps),
            (''SIGMA'', c_SIGMA ps), (''ACC'', 1 / 10 ^ 7), (''SOLVER'', 2)] d))"

text \<open>
  The process zone width and the nucleation length, read back from the dictionary:
  \<open>Lb = MU * DC / (B * SIGMA)\<close> and \<open>Lc = Lb / cab_ratio\<close>.
\<close>

definition length_scales :: "real \<Rightarrow> set_dict \<Rightarrow> py_error + real \<times> real" where
  "length_scales cab_ratio d =
     and_then (get_item d ''MU'') (\<lambda>mu.
     and_then (get_rsf d ''DC'') (\<lambda>dc.
     and_then (get_rsf d ''B'') (\<lambda>b.
     and_then (get_item d ''SIGMA'') (\<lambda>sg.
     and_then (float_div (mu * dc) (b * sg)) (\<lambda>Lb.
     and_then (float_div Lb cab_ratio) (\<lambda>Lc.
       Inr (Lb, Lc)))))))"

text \<open>
  The element count, the coordinate array \<open>x = np.linspace(-L/2, L/2, N)\<close>, and the
  three assignments \<open>set_dict["N"] = N\<close>, \<open>set_dict["L"] = L\<close>,
  \<open>set_dict["IC"] = N // 2\<close>.
\<close>

record grid =
  g_dict :: set_dict
  g_Lb :: real
  g_Lc :: real
  g_Lasp :: real
  g_L :: real
  g_N :: int
  g_x :: "real list"

definition make_grid ::
  "(real \<Rightarrow> real) \<Rightarrow> real \<Rightarrow> real \<Rightarrow> real \<Rightarrow> real \<Rightarrow> real \<Rightarrow> set_dict \<Rightarrow> py_error + grid" where
  "make_grid lg res Lb Lc Lasp L d =
     and_then (mesh_elements lg res L Lb) (\<lambda>N.
     and_then (linspace (- L / 2) (L / 2) N) (\<lambda>x.
       Inr \<lparr>g_dict = set_items [(''N'', of_int N), (''L'', L), (''IC'', of_int (N div 2))] d,
            g_Lb = Lb, g_Lc = Lc, g_Lasp = Lasp, g_L = L, g_N = N, g_x = x\<rparr>))"

text \<open>
  Step 1 and the length scales of the single-asperity notebook, where
  \<open>Lasp *= Lc\<close> and \<open>L *= Lasp\<close>.
\<close>

definition single_grid :: "(real \<Rightarrow> real) \<Rightarrow> params \<Rightarrow> set_dict \<Rightarrow> py_error + grid" where
  "single_grid lg ps d0 =
     (let cab_ratio = 1 - c_ab_ratio ps in
      and_then (single_configure ps d0) (\<lambda>d.
      and_then (length_scales cab_ratio d) (\<lambda>(Lb, Lc).
        let Lasp = c_Lasp ps * Lc; L = c_L ps * Lasp
        in make_grid lg (c_resolution ps) Lb Lc Lasp L d)))"

text \<open>The same for the double-asperity notebook, where \<open>L *= Lc\<close>.\<close>

definition double_grid :: "(real \<Rightarrow> real) \<Rightarrow> params \<Rightarrow> set_dict \<Rightarrow> py_error + grid" where
  "double_grid lg ps d0 =
     (let cab_ratio = 1 - c_ab_ratio ps in
      and_then (double_configure ps d0) (\<lambda>d.
      and_then (length_scales cab_ratio d) (\<lambda>(Lb, Lc).
        let L = c_L ps * Lc
        in make_grid lg (c_resolution ps) Lb Lc (c_Lasp ps) L d)))"

text \<open>
  Modelled from the spec: the mesh-generation step of the external wrapper
  (\<open>p.settings(set_dict)\<close> followed by \<open>p.render_mesh()\<close>), which is not part of this
  repository.  The spec says that it expands the defaults across the spatial elements,
  one array per quantity, each of length \<open>N\<close>.
\<close>

definition render_mesh :: "set_dict \<Rightarrow> py_error + (string \<rightharpoonup> real list)" where
  "render_mesh d =
     and_then (get_item d ''N'') (\<lambda>n.
       Inr (\<lambda>k. case set_dict_rsf d k of
                  None \<Rightarrow> None
                | Some v \<Rightarrow> Some (replicate (nat \<lfloor>n\<rfloor>) v)))"

definition get_mesh :: "(string \<rightharpoonup> real list) \<Rightarrow> string \<Rightarrow> py_error + real list" where
  "get_mesh m k = (case m k of None \<Rightarrow> Inl KeyError | Some a \<Rightarrow> Inr a)"

text \<open>
  Step 3 of the single-asperity notebook:
  \<open>p.mesh_dict["A"] = B * (1 + cab_ratio*(1 - 2*np.exp(-(2*x/Lasp)**6)))\<close>.
  The division by \<open>Lasp\<close> is NumPy's and does not raise; with \<open>Lasp = 0\<close> the fault
  length is 0 as well and \<open>x\<close> has no entry.
\<close>

definition single_A :: "real \<Rightarrow> real \<Rightarrow> real \<Rightarrow> real list \<Rightarrow> real list" where
  "single_A b cab_ratio Lasp x =
     map (\<lambda>xi. b * (1 + cab_ratio * (1 - 2 * exp (- ((2 * xi / Lasp) ^ 6))))) x"

definition single_cell ::
  "(real \<Rightarrow> real) \<Rightarrow> params \<Rightarrow> set_dict \<Rightarrow> py_error + grid \<times> (string \<rightharpoonup> real list)" where
  "single_cell lg ps d0 =
     and_then (single_grid lg ps d0) (\<lambda>g.
     and_then (render_mesh (g_dict g)) (\<lambda>mesh.
     and_then (get_rsf (g_dict g) ''B'') (\<lambda>b.
       Inr (g, mesh(''A'' \<mapsto> single_A b (1 - c_ab_ratio ps) (g_Lasp g) (g_x g))))))"

text \<open>
  Reading and writing a NumPy array through a boolean index array.  The index must have
  the length of the array (IndexError otherwise); an assignment needs as many values as
  the index selects, or a single value that is repeated (ValueError otherwise).
\<close>

definition mask_select :: "'a list \<Rightarrow> bool list \<Rightarrow> py_error + 'a list" where
  "mask_select a m =
     (if length m \<noteq> length a then Inl IndexError
      else Inr (map fst (filter snd (zip a m))))"

fun scatter :: "'a list \<Rightarrow> bool list \<Rightarrow> 'a list \<Rightarrow> 'a list" where
  "scatter (a # as) (True # ms) (v # vs) = v # scatter as ms vs"
| "scatter (a # as) (False # ms) vs = a # scatter as ms vs"
| "scatter as ms vs = as"

definition mask_assign :: "'a list \<Rightarrow> bool list \<Rightarrow> 'a list \<Rightarrow> py_error + 'a list" where
  "mask_assign a m vs =
     (if length m \<noteq> length a then Inl IndexError
      else if length vs = count_true m then Inr (scatter a m vs)
      else if length vs = 1 then Inr (scatter a m (replicate (count_true m) (hd vs)))
      else Inl ValueError)"

text \<open>
  Step 3 of the double-asperity notebook:
  \<open>p.mesh_dict["A"][asp1 + asp2] = ab_ratio * p.mesh_dict["B"][asp1 + asp2]\<close>.
\<close>

definition double_cell ::
  "(real \<Rightarrow> real) \<Rightarrow> params \<Rightarrow> set_dict \<Rightarrow> py_error + grid \<times> (string \<rightharpoonup> real list)" where
  "double_cell lg ps d0 =
     and_then (double_grid lg ps d0) (\<lambda>g.
     and_then (render_mesh (g_dict g)) (\<lambda>mesh.
       let idx = asp_mask (g_L g) (c_f ps) (g_x g) in
       and_then (get_mesh mesh ''B'') (\<lambda>bs.
       and_then (mask_select bs idx) (\<lambda>sel.
       and_then (get_mesh mesh ''A'') (\<lambda>as.
       and_then (mask_assign as idx (map (\<lambda>b. c_ab_ratio ps * b) sel)) (\<lambda>as'.
         Inr (g, mesh(''A'' \<mapsto> as'))))))))"

text \<open>
  What an observer of the mesh construction sees: the element count, the coordinate
  array and the array \<open>A\<close> of the mesh, or the exception.
\<close>

definition mesh_outputs ::
  "py_error + grid \<times> (string \<rightharpoonup> real list) \<Rightarrow> py_error + int \<times> real list \<times> real list option" where
  "mesh_outputs r =
     (case r of Inl e \<Rightarrow> Inl e | Inr (g, mesh) \<Rightarrow> Inr (g_N g, g_x g, mesh ''A''))"

text \<open>
  The two relations between keys that the configuration step computes by hand:
  \<open>V_SS\<close> equals \<open>V_PL\<close>, and \<open>TH_0\<close> equals \<open>DC / V_PL\<close>.
\<close>

definition rsf_consistent :: "set_dict \<Rightarrow> bool" where
  "rsf_consistent d =
     (case (main d ''V_PL'', set_dict_rsf d ''V_SS'', set_dict_rsf d ''DC'', set_dict_rsf d ''TH_0'') of
        (Some v, Some vss, Some dc, Some th0) \<Rightarrow> vss = v \<and> th0 = dc / v
      | _ \<Rightarrow> False)"

section \<open>Pixel scaling of the classifier notebook\<close>

text \<open>
  \<open>train_images = train_images / 255.0\<close> and \<open>test_images = test_images / 255.0\<close>:
  NumPy divides every entry of the array of images by 255.  An image is a list of rows
  of integer pixel values.
\<close>

definition scale_pixel :: "int \<Rightarrow> real" where
  "scale_pixel v = real_of_int v / 255"

definition scale_images :: "int list list list \<Rightarrow> real list list list" where
  "scale_images imgs = map (map (map scale_pixel)) imgs"

definition preprocess ::
  "int list list list \<times> int list list list \<Rightarrow> real list list list \<times> real list list list" where
  "preprocess d = (scale_images (fst d), scale_images (snd d))"

text \<open>Range checks on arrays of images, used to state the scaling property.\<close>

definition pixels_within :: "int \<Rightarrow> int \<Rightarrow> int list list list \<Rightarrow> bool" where
  "pixels_within lo hi imgs = list_all (list_all (list_all (\<lambda>v. lo \<le> v \<and> v \<le> hi))) imgs"

definition values_within :: "real \<Rightarrow> real \<Rightarrow> real list list list \<Rightarrow> bool" where
  "values_within lo hi imgs = list_all (list_all (list_all (\<lambda>v. lo \<le> v \<and> v \<le> hi))) imgs"

section \<open>The simulation notebooks as sequences of statements\<close>

text \<open>
  Each notebook is the list of its code cells, each cell the list of its statements in
  order.  Only the kind of a statement and the name it assigns or calls are kept; the
  syntax trees of the same cells are in the section "The notebooks as syntax trees".  A
  run of consecutive matplotlib calls that draw one figure is one statement.
\<close>

datatype call = Settings | RenderMesh | WriteInput | Run | ReadOutput

datatype stmt =
    Import string
  | PathAppend string
  | NewQdyn
  | Local string
  | SetParam string
  | SetRSF string
  | SetCNS string
  | Wrapper call
  | OverrideMesh string
  | SetW10
  | PlotMesh
  | Inspect
  | PlotOutput string

definition import_cell :: "stmt list" where
  "import_cell =
     [Import ''%matplotlib notebook'', Import ''matplotlib.pyplot'', Import ''numpy'',
      Import ''os'', Import ''sys'', Local ''base_dir'', Local ''qdyn_dir'',
      Local ''plot_dir'', PathAppend ''qdyn_dir'', PathAppend ''plot_dir'',
      Import ''pyqdyn.qdyn'', Import ''plot_functions'']"

definition single_asperity :: "stmt list list" where
  "single_asperity =
     [import_cell,
      [NewQdyn, Local ''t_yr'', Local ''Lasp'', Local ''L'', Local ''ab_ratio'',
       Local ''cab_ratio'', Local ''resolution'', Local ''set_dict'',
       SetParam ''MESHDIM'', SetParam ''FINITE'', SetParam ''TMAX'', SetParam ''NTOUT'',
       SetParam ''NXOUT'', SetParam ''V_PL'', SetParam ''MU'', SetParam ''W'',
       SetParam ''SIGMA'', SetParam ''ACC'', SetParam ''SOLVER'',
       SetRSF ''A'', SetRSF ''B'', SetRSF ''DC'', SetRSF ''V_SS'', SetRSF ''TH_0'',
       Local ''Lb'', Local ''Lc'', Local ''Lasp'', Local ''L'', Local ''N'', Local ''x'',
       SetParam ''N'', SetParam ''L'', SetParam ''IC'',
       Wrapper Settings, Wrapper RenderMesh, OverrideMesh ''A'', Wrapper WriteInput, SetW10],
      [PlotMesh],
      [Wrapper Run],
      [Wrapper ReadOutput],
      [PlotOutput ''timeseries''],
      [PlotOutput ''slip_profile''],
      [PlotOutput ''animation_slip''],
      []]"

definition double_asperity :: "stmt list list" where
  "double_asperity =
     [import_cell,
      [NewQdyn, Local ''t_yr'', Local ''f'', Local ''L'', Local ''ab_ratio'',
       Local ''cab_ratio'', Local ''resolution'', Local ''set_dict'',
       SetParam ''MESHDIM'', SetParam ''FINITE'', SetParam ''TMAX'', SetParam ''NTOUT'',
       SetParam ''NXOUT'', SetParam ''V_PL'', SetParam ''MU'',
       SetParam ''SIGMA'', SetParam ''ACC'', SetParam ''SOLVER'',
       SetRSF ''A'', SetRSF ''B'', SetRSF ''DC'', SetRSF ''V_SS'', SetRSF ''TH_0'',
       Local ''Lb'', Local ''Lc'', Local ''L'', Local ''L1'', Local ''L2'', Local ''p1'',
       Local ''p2'', Local ''N'', Local ''x'', Local ''asp1'', Local ''asp2'',
       SetParam ''N'', SetParam ''L'', SetParam ''IC'',
       Wrapper Settings, Wrapper RenderMesh, OverrideMesh ''A'', Wrapper WriteInput, SetW10],
      [PlotMesh],
      [Wrapper Run],
      [Wrapper ReadOutput],
      [PlotOutput ''timeseries''],
      [PlotOutput ''slip_profile''],
      [PlotOutput ''animation_slip''],
      []]"

text \<open>The notebook of the CNS spring-block model, which runs the simulation twice.\<close>

definition cns_spring_block :: "stmt list list" where
  "cns_spring_block =
     [[Import ''%matplotlib notebook'', Import ''matplotlib.pyplot'', Import ''numpy'',
       Import ''os'', Import ''sys'', Local ''base_dir'', Local ''qdyn_dir'',
       PathAppend ''qdyn_dir'', Import ''pyqdyn.qdyn''],
      [NewQdyn, Local ''set_dict'',
       SetParam ''MESHDIM'', SetParam ''TMAX'', SetParam ''NTOUT'', SetParam ''V_PL'',
       SetParam ''MU'', SetParam ''VS'', SetParam ''SIGMA'', SetParam ''ACC'',
       SetParam ''SOLVER'', SetParam ''FRICTION_MODEL''],
      [SetCNS ''H'', SetCNS ''PHI_C'', SetCNS ''A'', SetCNS ''N'', SetCNS ''THICKNESS'',
       SetCNS ''TAU'', SetCNS ''PHI_INI''],
      [Wrapper Settings, Wrapper RenderMesh, Wrapper WriteInput, SetW10],
      [Wrapper Run],
      [Wrapper ReadOutput],
      [Inspect],
      [PlotOutput ''tau, theta, v''],
      [SetCNS ''H'', Wrapper Settings, Wrapper RenderMesh, Wrapper WriteInput, Wrapper Run,
       Wrapper ReadOutput, PlotOutput ''tau, theta, v''],
      []]"

definition simulation_notebooks :: "stmt list list list" where
  "simulation_notebooks = [single_asperity, double_asperity, cns_spring_block]"

text \<open>
  The steps of the pipeline: setting a parameter in the configuration mapping, the five
  calls of the wrapper, and plotting.  Statements that are none of them (imports, local
  variables, the override of the rendered mesh, the flag \<open>W10_bash\<close>, the look at the
  first rows of a table) have no step.
\<close>

datatype step = Configure | Call call | Plot

fun step_of :: "stmt \<Rightarrow> step option" where
  "step_of (SetParam k) = Some Configure"
| "step_of (SetRSF k) = Some Configure"
| "step_of (SetCNS k) = Some Configure"
| "step_of (Wrapper c) = Some (Call c)"
| "step_of PlotMesh = Some Plot"
| "step_of (PlotOutput w) = Some Plot"
| "step_of other = None"

definition steps :: "stmt list list \<Rightarrow> step list" where
  "steps nb = List.map_filter step_of (concat nb)"

text \<open>The same with the plot of the input mesh left out: only output is plotted.\<close>

definition output_steps :: "stmt list list \<Rightarrow> step list" where
  "output_steps nb = List.map_filter step_of (filter (\<lambda>c. c \<noteq> PlotMesh) (concat nb))"

fun rank :: "step \<Rightarrow> nat" where
  "rank Configure = 0"
| "rank (Call Settings) = 1"
| "rank (Call RenderMesh) = 2"
| "rank (Call WriteInput) = 3"
| "rank (Call Run) = 4"
| "rank (Call ReadOutput) = 5"
| "rank Plot = 6"

text \<open>
  The fixed order: a step is followed by itself again, by its successor, or, after
  plotting, by a new round of configuration; and the first step is configuration.
\<close>

definition follows :: "step \<Rightarrow> step \<Rightarrow> bool" where
  "follows a b = (rank b = rank a \<or> rank b = Suc (rank a) \<or> (a = Plot \<and> b = Configure))"

fun ordered_from :: "step \<Rightarrow> step list \<Rightarrow> bool" where
  "ordered_from a [] = True"
| "ordered_from a (b # bs) = (follows a b \<and> ordered_from b bs)"

definition pipeline_ordered :: "step list \<Rightarrow> bool" where
  "pipeline_ordered t = (case t of [] \<Rightarrow> True | a # bs \<Rightarrow> a = Configure \<and> ordered_from a bs)"

text \<open>
  The weaker reading: no step runs before its predecessor has run at least once.
  \<open>seen\<close> is the list of ranks of the steps that have run.
\<close>

fun predecessors_first :: "nat list \<Rightarrow> step list \<Rightarrow> bool" where
  "predecessors_first seen [] = True"
| "predecessors_first seen (b # bs) =
     ((rank b = 0 \<or> rank b - 1 \<in> set seen) \<and> predecessors_first (rank b # seen) bs)"

section \<open>The notebooks as syntax trees\<close>

text \<open>
  For the properties of what the notebooks contain, each notebook is also given as the
  syntax tree of its code cells: expressions and statements of Python, a list of
  statements per cell.  Numbers keep their source text.  A line that starts with
  \<open>%\<close> is a notebook directive (\<open>MagicS\<close>).  The statement type has the compound
  and the error-raising statements of Python, whether a notebook uses them or not.
\<close>

datatype expr =
    NameE string
  | AttrE expr string
  | StrE string
  | LitE string
  | CallE expr "expr list"
  | KwE string expr
  | ListE "expr list"
  | TupleE "expr list"
  | SubscriptE expr expr
  | BinOpE expr string expr
  | UnaryOpE string expr
  | CompareE expr string expr
  | LambdaE "string list" expr
  | IfExpE expr expr expr

datatype pstmt =
    AssignS "expr list" expr
  | AugAssignS expr string expr
  | ExprS expr
  | ImportS string
  | MagicS string
  | ForS expr expr "pstmt list"
  | IfS expr "pstmt list" "pstmt list"
  | WhileS expr "pstmt list"
  | WithS "expr list" "pstmt list"
  | TryS "pstmt list" "pstmt list"
  | RaiseS expr
  | AssertS expr
  | DefS string "pstmt list"
  | ClassS string "pstmt list"
  | ReturnS expr

definition single_asperity_code :: "pstmt list list" where
  "single_asperity_code =
     [[MagicS ''matplotlib notebook'',
       ImportS ''import matplotlib.pyplot as plt'',
       ImportS ''import numpy as np'',
       ImportS ''import os'',
       ImportS ''import sys'',
       AssignS
         [NameE ''base_dir'']
         (CallE (AttrE (AttrE (NameE ''os'') ''path'') ''expanduser'') [StrE ''~'']),
       AssignS
         [NameE ''qdyn_dir'']
         (CallE
           (AttrE (AttrE (NameE ''os'') ''path'') ''join'')
           [NameE ''base_dir'', StrE ''qdyn'', StrE ''src'']),
       AssignS
         [NameE ''plot_dir'']
         (CallE
           (AttrE (AttrE (NameE ''os'') ''path'') ''join'')
           [NameE ''base_dir'', StrE ''qdyn'', StrE ''utils'', StrE ''post_processing'']),
       ExprS (CallE (AttrE (AttrE (NameE ''sys'') ''path'') ''append'') [NameE ''qdyn_dir'']),
       ExprS (CallE (AttrE (AttrE (NameE ''sys'') ''path'') ''append'') [NameE ''plot_dir'']),
       ImportS ''from pyqdyn import qdyn'',
       ImportS ''import plot_functions as qdyn_plot''],
      [AssignS [NameE ''p''] (CallE (NameE ''qdyn'') []),
       AssignS
         [NameE ''t_yr'']
         (BinOpE (BinOpE (LitE ''3600'') ''*'' (LitE ''24'')) ''*'' (LitE ''365.0'')),
       AssignS [NameE ''Lasp''] (LitE ''7''),
       AssignS [NameE ''L''] (LitE ''5''),
       AssignS [NameE ''ab_ratio''] (LitE ''0.8''),
       AssignS [NameE ''cab_ratio''] (BinOpE (LitE ''1'') ''-'' (NameE ''ab_ratio'')),
       AssignS [NameE ''resolution''] (LitE ''7''),
       AssignS [NameE ''set_dict''] (AttrE (NameE ''p'') ''set_dict''),
       ExprS (StrE '' Step 1: Define simulation/mesh parameters ''),
       AssignS [SubscriptE (NameE ''set_dict'') (StrE ''MESHDIM'')] (LitE ''1''),
       AssignS [SubscriptE (NameE ''set_dict'') (StrE ''FINITE'')] (LitE ''0''),
       AssignS
         [SubscriptE (NameE ''set_dict'') (StrE ''TMAX'')]
         (BinOpE (LitE ''15'') ''*'' (NameE ''t_yr'')),
       AssignS [SubscriptE (NameE ''set_dict'') (StrE ''NTOUT'')] (LitE ''100''),
       AssignS [SubscriptE (NameE ''set_dict'') (StrE ''NXOUT'')] (LitE ''2''),
       AssignS [SubscriptE (NameE ''set_dict'') (StrE ''V_PL'')] (LitE ''1e-9''),
       AssignS [SubscriptE (NameE ''set_dict'') (StrE ''MU'')] (LitE ''3e10''),
       AssignS [SubscriptE (NameE ''set_dict'') (StrE ''W'')] (LitE ''50e3''),
       AssignS [SubscriptE (NameE ''set_dict'') (StrE ''SIGMA'')] (LitE ''1e8''),
       AssignS [SubscriptE (NameE ''set_dict'') (StrE ''ACC'')] (LitE ''1e-7''),
       AssignS [SubscriptE (NameE ''set_dict'') (StrE ''SOLVER'')] (LitE ''2''),
       AssignS
         [SubscriptE (SubscriptE (NameE ''set_dict'') (StrE ''SET_DICT_RSF'')) (StrE ''A'')]
         (LitE ''0.9e-2''),
       AssignS
         [SubscriptE (SubscriptE (NameE ''set_dict'') (StrE ''SET_DICT_RSF'')) (StrE ''B'')]
         (LitE ''1e-2''),
       AssignS
         [SubscriptE (SubscriptE (NameE ''set_dict'') (StrE ''SET_DICT_RSF'')) (StrE ''DC'')]
         (LitE ''4e-4''),
       AssignS
         [SubscriptE (SubscriptE (NameE ''set_dict'') (StrE ''SET_DICT_RSF'')) (StrE ''V_SS'')]
         (SubscriptE (NameE ''set_dict'') (StrE ''V_PL'')),
       AssignS
         [SubscriptE (SubscriptE (NameE ''set_dict'') (StrE ''SET_DICT_RSF'')) (StrE ''TH_0'')]
         (BinOpE
           (SubscriptE (SubscriptE (NameE ''set_dict'') (StrE ''SET_DICT_RSF'')) (StrE ''DC''))
           ''/''
           (SubscriptE (NameE ''set_dict'') (StrE ''V_PL''))),
       AssignS
         [NameE ''Lb'']
         (BinOpE
           (BinOpE
             (SubscriptE (NameE ''set_dict'') (StrE ''MU''))
             ''*''
             (SubscriptE (SubscriptE (NameE ''set_dict'') (StrE ''SET_DICT_RSF'')) (StrE ''DC'')))
           ''/''
           (BinOpE
             (SubscriptE (SubscriptE (NameE ''set_dict'') (StrE ''SET_DICT_RSF'')) (StrE ''B''))
             ''*''
             (SubscriptE (NameE ''set_dict'') (StrE ''SIGMA'')))),
       AssignS [NameE ''Lc''] (BinOpE (NameE ''Lb'') ''/'' (NameE ''cab_ratio'')),
       AugAssignS (NameE ''Lasp'') ''*'' (NameE ''Lc''),
       AugAssignS (NameE ''L'') ''*'' (NameE ''Lasp''),
       AssignS
         [NameE ''N'']
         (CallE
           (NameE ''int'')
           [CallE
              (AttrE (NameE ''np'') ''power'')
              [LitE ''2'',
               CallE
                 (AttrE (NameE ''np'') ''ceil'')
                 [CallE
                    (AttrE (NameE ''np'') ''log2'')
                    [BinOpE
                       (BinOpE (NameE ''resolution'') ''*'' (NameE ''L''))
                       ''/''
                       (NameE ''Lb'')]]]]),
       AssignS
         [NameE ''x'']
         (CallE
           (AttrE (NameE ''np'') ''linspace'')
           [BinOpE (UnaryOpE ''-'' (NameE ''L'')) ''/'' (LitE ''2''),
            BinOpE (NameE ''L'') ''/'' (LitE ''2''),
            NameE ''N'',
            KwE ''dtype'' (NameE ''float'')]),
       AssignS [SubscriptE (NameE ''set_dict'') (StrE ''N'')] (NameE ''N''),
       AssignS [SubscriptE (NameE ''set_dict'') (StrE ''L'')] (NameE ''L''),
       AssignS
         [SubscriptE (NameE ''set_dict'') (StrE ''IC'')]
         (BinOpE (NameE ''N'') ''//'' (LitE ''2'')),
       ExprS (StrE '' Step 2: Set (default) parameter values and generate mesh ''),
       ExprS (CallE (AttrE (NameE ''p'') ''settings'') [NameE ''set_dict'']),
       ExprS (CallE (AttrE (NameE ''p'') ''render_mesh'') []),
       ExprS (StrE '' Step 3: override default mesh values ''),
       AssignS
         [SubscriptE (AttrE (NameE ''p'') ''mesh_dict'') (StrE ''A'')]
         (BinOpE
           (SubscriptE (SubscriptE (NameE ''set_dict'') (StrE ''SET_DICT_RSF'')) (StrE ''B''))
           ''*''
           (BinOpE
             (LitE ''1'')
             ''+''
             (BinOpE
               (NameE ''cab_ratio'')
               ''*''
               (BinOpE
                 (LitE ''1'')
                 ''-''
                 (BinOpE
                   (LitE ''2'')
                   ''*''
                   (CallE
                     (AttrE (NameE ''np'') ''exp'')
                     [UnaryOpE
                        ''-''
                        (BinOpE
                          (BinOpE
                            (BinOpE (LitE ''2'') ''*'' (NameE ''x''))
                            ''/''
                            (NameE ''Lasp''))
                          ''**''
                          (LitE ''6''))])))))),
       ExprS (CallE (AttrE (NameE ''p'') ''write_input'') []),
       AssignS [AttrE (NameE ''p'') ''W10_bash''] (LitE ''False'')],
      [ExprS (CallE (AttrE (NameE ''plt'') ''clf'') []),
       ExprS
         (CallE
           (AttrE (NameE ''plt'') ''plot'')
           [NameE ''x'',
            BinOpE
              (SubscriptE (AttrE (NameE ''p'') ''mesh_dict'') (StrE ''A''))
              ''-''
              (SubscriptE (AttrE (NameE ''p'') ''mesh_dict'') (StrE ''B''))]),
       ExprS
         (CallE
           (AttrE (NameE ''plt'') ''axhline'')
           [LitE ''0'', KwE ''ls'' (StrE '':''), KwE ''c'' (StrE ''k'')]),
       ExprS (CallE (AttrE (NameE ''plt'') ''xlabel'') [StrE ''position [m]'']),
       ExprS (CallE (AttrE (NameE ''plt'') ''ylabel'') [StrE ''(a-b) [-]'']),
       ExprS (CallE (AttrE (NameE ''plt'') ''tight_layout'') []),
       ExprS (CallE (AttrE (NameE ''plt'') ''show'') [])],
      [ExprS (CallE (AttrE (NameE ''p'') ''run'') [])],
      [ExprS (CallE (AttrE (NameE ''p'') ''read_output'') [])],
      [ExprS (CallE (AttrE (NameE ''qdyn_plot'') ''timeseries'') [AttrE (NameE ''p'') ''ot''])],
      [ExprS
         (CallE
           (AttrE (NameE ''qdyn_plot'') ''slip_profile'')
           [AttrE (NameE ''p'') ''ox'',
            KwE ''warm_up'' (BinOpE (LitE ''4'') ''*'' (NameE ''t_yr''))])],
      [ExprS
         (CallE
           (AttrE (NameE ''qdyn_plot'') ''animation_slip'')
           [AttrE (NameE ''p'') ''ox'',
            KwE ''warm_up'' (BinOpE (LitE ''4'') ''*'' (NameE ''t_yr''))])],
      []]"

definition double_asperity_code :: "pstmt list list" where
  "double_asperity_code =
     [[MagicS ''matplotlib notebook'',
       ImportS ''import matplotlib.pyplot as plt'',
       ImportS ''import numpy as np'',
       ImportS ''import os'',
       ImportS ''import sys'',
       AssignS
         [NameE ''base_dir'']
         (CallE (AttrE (AttrE (NameE ''os'') ''path'') ''expanduser'') [StrE ''~'']),
       AssignS
         [NameE ''qdyn_dir'']
         (CallE
           (AttrE (AttrE (NameE ''os'') ''path'') ''join'')
           [NameE ''base_dir'', StrE ''qdyn'', StrE ''src'']),
       AssignS
         [NameE ''plot_dir'']
         (CallE
           (AttrE (AttrE (NameE ''os'') ''path'') ''join'')
           [NameE ''base_dir'', StrE ''qdyn'', StrE ''utils'', StrE ''post_processing'']),
       ExprS (CallE (AttrE (AttrE (NameE ''sys'') ''path'') ''append'') [NameE ''qdyn_dir'']),
       ExprS (CallE (AttrE (AttrE (NameE ''sys'') ''path'') ''append'') [NameE ''plot_dir'']),
       ImportS ''from pyqdyn import qdyn'',
       ImportS ''import plot_functions as qdyn_plot''],
      [AssignS [NameE ''p''] (CallE (NameE ''qdyn'') []),
       AssignS
         [NameE ''t_yr'']
         (BinOpE (BinOpE (LitE ''3600'') ''*'' (LitE ''24'')) ''*'' (LitE ''365.0'')),
       AssignS [NameE ''f''] (LitE ''0.5''),
       AssignS [NameE ''L''] (LitE ''15''),
       AssignS [NameE ''ab_ratio''] (LitE ''0.8''),
       AssignS [NameE ''cab_ratio''] (BinOpE (LitE ''1'') ''-'' (NameE ''ab_ratio'')),
       AssignS [NameE ''resolution''] (LitE ''7''),
       AssignS [NameE ''set_dict''] (AttrE (NameE ''p'') ''set_dict''),
       ExprS (StrE '' Step 1: Define simulation/mesh parameters ''),
       AssignS [SubscriptE (NameE ''set_dict'') (StrE ''MESHDIM'')] (LitE ''1''),
       AssignS [SubscriptE (NameE ''set_dict'') (StrE ''FINITE'')] (LitE ''1''),
       AssignS
         [SubscriptE (NameE ''set_dict'') (StrE ''TMAX'')]
         (BinOpE (LitE ''25'') ''*'' (NameE ''t_yr'')),
       AssignS [SubscriptE (NameE ''set_dict'') (StrE ''NTOUT'')] (LitE ''100''),
       AssignS [SubscriptE (NameE ''set_dict'') (StrE ''NXOUT'')] (LitE ''2''),
       AssignS [SubscriptE (NameE ''set_dict'') (StrE ''V_PL'')] (LitE ''1e-9''),
       AssignS [SubscriptE (NameE ''set_dict'') (StrE ''MU'')] (LitE ''3e10''),
       AssignS [SubscriptE (NameE ''set_dict'') (StrE ''SIGMA'')] (LitE ''1e8''),
       AssignS [SubscriptE (NameE ''set_dict'') (StrE ''ACC'')] (LitE ''1e-7''),
       AssignS [SubscriptE (NameE ''set_dict'') (StrE ''SOLVER'')] (LitE ''2''),
       AssignS
         [SubscriptE (SubscriptE (NameE ''set_dict'') (StrE ''SET_DICT_RSF'')) (StrE ''A'')]
         (LitE ''1.2e-2''),
       AssignS
         [SubscriptE (SubscriptE (NameE ''set_dict'') (StrE ''SET_DICT_RSF'')) (StrE ''B'')]
         (LitE ''1e-2''),
       AssignS
         [SubscriptE (SubscriptE (NameE ''set_dict'') (StrE ''SET_DICT_RSF'')) (StrE ''DC'')]
         (LitE ''4e-4''),
       AssignS
         [SubscriptE (SubscriptE (NameE ''set_dict'') (StrE ''SET_DICT_RSF'')) (StrE ''V_SS'')]
         (SubscriptE (NameE ''set_dict'') (StrE ''V_PL'')),
       AssignS
         [SubscriptE (SubscriptE (NameE ''set_dict'') (StrE ''SET_DICT_RSF'')) (StrE ''TH_0'')]
         (BinOpE
           (SubscriptE (SubscriptE (NameE ''set_dict'') (StrE ''SET_DICT_RSF'')) (StrE ''DC''))
           ''/''
           (SubscriptE (NameE ''set_dict'') (StrE ''V_PL''))),
       AssignS
         [NameE ''Lb'']
         (BinOpE
           (BinOpE
             (SubscriptE (NameE ''set_dict'') (StrE ''MU''))
             ''*''
             (SubscriptE (SubscriptE (NameE ''set_dict'') (StrE ''SET_DICT_RSF'')) (StrE ''DC'')))
           ''/''
           (BinOpE
             (SubscriptE (SubscriptE (NameE ''set_dict'') (StrE ''SET_DICT_RSF'')) (StrE ''B''))
             ''*''
             (SubscriptE (NameE ''set_dict'') (StrE ''SIGMA'')))),
       AssignS [NameE ''Lc''] (BinOpE (NameE ''Lb'') ''/'' (NameE ''cab_ratio'')),
       AugAssignS (NameE ''L'') ''*'' (NameE ''Lc''),
       AssignS
         [NameE ''L1'']
         (BinOpE (BinOpE (LitE ''0.5'') ''*'' (NameE ''f'')) ''*'' (NameE ''L'')),
       AssignS
         [NameE ''L2'']
         (BinOpE
           (BinOpE (LitE ''0.5'') ''*'' (BinOpE (LitE ''1'') ''-'' (NameE ''f'')))
           ''*''
           (NameE ''L'')),
       AssignS
         [NameE ''p1'']
         (BinOpE
           (BinOpE (NameE ''L'') ''/'' (LitE ''3''))
           ''-''
           (BinOpE (NameE ''L'') ''/'' (LitE ''2''))),
       AssignS
         [NameE ''p2'']
         (BinOpE
           (BinOpE (BinOpE (LitE ''2'') ''*'' (NameE ''L'')) ''/'' (LitE ''3''))
           ''-''
           (BinOpE (NameE ''L'') ''/'' (LitE ''2''))),
       AssignS
         [NameE ''N'']
         (CallE
           (NameE ''int'')
           [CallE
              (AttrE (NameE ''np'') ''power'')
              [LitE ''2'',
               CallE
                 (AttrE (NameE ''np'') ''ceil'')
                 [CallE
                    (AttrE (NameE ''np'') ''log2'')
                    [BinOpE
                       (BinOpE (NameE ''resolution'') ''*'' (NameE ''L''))
                       ''/''
                       (NameE ''Lb'')]]]]),
       AssignS
         [NameE ''x'']
         (CallE
           (AttrE (NameE ''np'') ''linspace'')
           [BinOpE (UnaryOpE ''-'' (NameE ''L'')) ''/'' (LitE ''2''),
            BinOpE (NameE ''L'') ''/'' (LitE ''2''),
            NameE ''N'',
            KwE ''dtype'' (NameE ''float'')]),
       AssignS
         [NameE ''asp1'']
         (BinOpE
           (CompareE
             (NameE ''x'')
             ''>''
             (BinOpE (NameE ''p1'') ''-'' (BinOpE (NameE ''L1'') ''/'' (LitE ''2''))))
           ''&''
           (CompareE
             (NameE ''x'')
             ''<''
             (BinOpE (NameE ''p1'') ''+'' (BinOpE (NameE ''L1'') ''/'' (LitE ''2''))))),
       AssignS
         [NameE ''asp2'']
         (BinOpE
           (CompareE
             (NameE ''x'')
             ''>''
             (BinOpE (NameE ''p2'') ''-'' (BinOpE (NameE ''L2'') ''/'' (LitE ''2''))))
           ''&''
           (CompareE
             (NameE ''x'')
             ''<''
             (BinOpE (NameE ''p2'') ''+'' (BinOpE (NameE ''L2'') ''/'' (LitE ''2''))))),
       AssignS [SubscriptE (NameE ''set_dict'') (StrE ''N'')] (NameE ''N''),
       AssignS [SubscriptE (NameE ''set_dict'') (StrE ''L'')] (NameE ''L''),
       AssignS
         [SubscriptE (NameE ''set_dict'') (StrE ''IC'')]
         (BinOpE (NameE ''N'') ''//'' (LitE ''2'')),
       ExprS (StrE '' Step 2: Set (default) parameter values and generate mesh ''),
       ExprS (CallE (AttrE (NameE ''p'') ''settings'') [NameE ''set_dict'']),
       ExprS (CallE (AttrE (NameE ''p'') ''render_mesh'') []),
       ExprS (StrE '' Step 3: override default mesh values ''),
       AssignS
         [SubscriptE
            (SubscriptE (AttrE (NameE ''p'') ''mesh_dict'') (StrE ''A''))
            (BinOpE (NameE ''asp1'') ''+'' (NameE ''asp2''))]
         (BinOpE
           (NameE ''ab_ratio'')
           ''*''
           (SubscriptE
             (SubscriptE (AttrE (NameE ''p'') ''mesh_dict'') (StrE ''B''))
             (BinOpE (NameE ''asp1'') ''+'' (NameE ''asp2'')))),
       ExprS (CallE (AttrE (NameE ''p'') ''write_input'') []),
       AssignS [AttrE (NameE ''p'') ''W10_bash''] (LitE ''False'')],
      [ExprS (CallE (AttrE (NameE ''plt'') ''clf'') []),
       ExprS
         (CallE
           (AttrE (NameE ''plt'') ''plot'')
           [NameE ''x'',
            BinOpE
              (SubscriptE (AttrE (NameE ''p'') ''mesh_dict'') (StrE ''A''))
              ''-''
              (SubscriptE (AttrE (NameE ''p'') ''mesh_dict'') (StrE ''B''))]),
       ExprS
         (CallE
           (AttrE (NameE ''plt'') ''axhline'')
           [LitE ''0'', KwE ''ls'' (StrE '':''), KwE ''c'' (StrE ''k'')]),
       ExprS (CallE (AttrE (NameE ''plt'') ''xlabel'') [StrE ''position [m]'']),
       ExprS (CallE (AttrE (NameE ''plt'') ''ylabel'') [StrE ''(a-b) [-]'']),
       ExprS (CallE (AttrE (NameE ''plt'') ''tight_layout'') []),
       ExprS (CallE (AttrE (NameE ''plt'') ''show'') [])],
      [ExprS (CallE (AttrE (NameE ''p'') ''run'') [])],
      [ExprS (CallE (AttrE (NameE ''p'') ''read_output'') [])],
      [ExprS (CallE (AttrE (NameE ''qdyn_plot'') ''timeseries'') [AttrE (NameE ''p'') ''ot''])],
      [ExprS
         (CallE
           (AttrE (NameE ''qdyn_plot'') ''slip_profile'')
           [AttrE (NameE ''p'') ''ox'',
            KwE ''warm_up'' (BinOpE (LitE ''1'') ''*'' (NameE ''t_yr''))])],
      [ExprS
         (CallE
           (AttrE (NameE ''qdyn_plot'') ''animation_slip'')
           [AttrE (NameE ''p'') ''ox'',
            KwE ''warm_up'' (BinOpE (LitE ''1'') ''*'' (NameE ''t_yr''))])],
      []]"

definition cns_spring_block_code :: "pstmt list list" where
  "cns_spring_block_code =
     [[MagicS ''matplotlib notebook'',
       ImportS ''import matplotlib.pyplot as plt'',
       ImportS ''import numpy as np'',
       ImportS ''import os'',
       ImportS ''import sys'',
       AssignS
         [NameE ''base_dir'']
         (CallE (AttrE (AttrE (NameE ''os'') ''path'') ''expanduser'') [StrE ''~'']),
       AssignS
         [NameE ''qdyn_dir'']
         (CallE
           (AttrE (AttrE (NameE ''os'') ''path'') ''join'')
           [NameE ''base_dir'', StrE ''qdyn'', StrE ''src'']),
       ExprS (CallE (AttrE (AttrE (NameE ''sys'') ''path'') ''append'') [NameE ''qdyn_dir'']),
       ImportS ''from pyqdyn import qdyn''],
      [AssignS [NameE ''p''] (CallE (NameE ''qdyn'') []),
       AssignS [NameE ''set_dict''] (AttrE (NameE ''p'') ''set_dict''),
       AssignS [SubscriptE (NameE ''set_dict'') (StrE ''MESHDIM'')] (LitE ''0''),
       AssignS [SubscriptE (NameE ''set_dict'') (StrE ''TMAX'')] (LitE ''200''),
       AssignS [SubscriptE (NameE ''set_dict'') (StrE ''NTOUT'')] (LitE ''100''),
       AssignS [SubscriptE (NameE ''set_dict'') (StrE ''V_PL'')] (LitE ''1e-5''),
       AssignS [SubscriptE (NameE ''set_dict'') (StrE ''MU'')] (LitE ''2e9''),
       AssignS [SubscriptE (NameE ''set_dict'') (StrE ''VS'')] (LitE ''0''),
       AssignS [SubscriptE (NameE ''set_dict'') (StrE ''SIGMA'')] (LitE ''5e6''),
       AssignS [SubscriptE (NameE ''set_dict'') (StrE ''ACC'')] (LitE ''1e-7''),
       AssignS [SubscriptE (NameE ''set_dict'') (StrE ''SOLVER'')] (LitE ''2''),
       AssignS [SubscriptE (NameE ''set_dict'') (StrE ''FRICTION_MODEL'')] (StrE ''CNS'')],
      [AssignS
         [SubscriptE (SubscriptE (NameE ''set_dict'') (StrE ''SET_DICT_CNS'')) (StrE ''H'')]
         (LitE ''0.5''),
       AssignS
         [SubscriptE (SubscriptE (NameE ''set_dict'') (StrE ''SET_DICT_CNS'')) (StrE ''PHI_C'')]
         (LitE ''0.3''),
       AssignS
         [SubscriptE (SubscriptE (NameE ''set_dict'') (StrE ''SET_DICT_CNS'')) (StrE ''A'')]
         (ListE [LitE ''1e-10'']),
       AssignS
         [SubscriptE (SubscriptE (NameE ''set_dict'') (StrE ''SET_DICT_CNS'')) (StrE ''N'')]
         (ListE [LitE ''1'']),
       AssignS
         [SubscriptE
            (SubscriptE (NameE ''set_dict'') (StrE ''SET_DICT_CNS''))
            (StrE ''THICKNESS'')]
         (LitE ''1e-4''),
       AssignS
         [SubscriptE (SubscriptE (NameE ''set_dict'') (StrE ''SET_DICT_CNS'')) (StrE ''TAU'')]
         (BinOpE (LitE ''0.5'') ''*'' (SubscriptE (NameE ''set_dict'') (StrE ''SIGMA''))),
       AssignS
         [SubscriptE (SubscriptE (NameE ''set_dict'') (StrE ''SET_DICT_CNS'')) (StrE ''PHI_INI'')]
         (LitE ''0.25'')],
      [ExprS (CallE (AttrE (NameE ''p'') ''settings'') [NameE ''set_dict'']),
       ExprS (CallE (AttrE (NameE ''p'') ''render_mesh'') []),
       ExprS (CallE (AttrE (NameE ''p'') ''write_input'') []),
       AssignS [AttrE (NameE ''p'') ''W10_bash''] (LitE ''True'')],
      [ExprS (CallE (AttrE (NameE ''p'') ''run'') [])],
      [ExprS (CallE (AttrE (NameE ''p'') ''read_output'') [])],
      [ExprS (CallE (AttrE (AttrE (NameE ''p'') ''ot'') ''head'') [LitE ''10''])],
      [ExprS (CallE (AttrE (NameE ''plt'') ''figure'') []),
       ExprS (CallE (AttrE (NameE ''plt'') ''subplot'') [LitE ''311'']),
       ExprS
         (CallE
           (AttrE (NameE ''plt'') ''plot'')
           [SubscriptE (AttrE (NameE ''p'') ''ot'') (StrE ''t''),
            BinOpE
              (SubscriptE (AttrE (NameE ''p'') ''ot'') (StrE ''tau''))
              ''/''
              (SubscriptE (NameE ''set_dict'') (StrE ''SIGMA''))]),
       ExprS
         (CallE
           (AttrE (NameE ''plt'') ''ylabel'')
           [StrE (''$'' @ [CHR 0x5C] @ ''tau / '' @ [CHR 0x5C] @ ''sigma$ [-]'')]),
       ExprS (CallE (AttrE (NameE ''plt'') ''subplot'') [LitE ''312'']),
       ExprS
         (CallE
           (AttrE (NameE ''plt'') ''plot'')
           [SubscriptE (AttrE (NameE ''p'') ''ot'') (StrE ''t''),
            BinOpE (LitE ''100'') ''*'' (SubscriptE (AttrE (NameE ''p'') ''ot'') (StrE ''theta''))]),
       ExprS (CallE (AttrE (NameE ''plt'') ''ylabel'') [StrE (''$'' @ [CHR 0x5C] @ ''phi$ [%]'')]),
       ExprS (CallE (AttrE (NameE ''plt'') ''subplot'') [LitE ''313'']),
       ExprS
         (CallE
           (AttrE (NameE ''plt'') ''plot'')
           [SubscriptE (AttrE (NameE ''p'') ''ot'') (StrE ''t''),
            SubscriptE (AttrE (NameE ''p'') ''ot'') (StrE ''v'')]),
       ExprS (CallE (AttrE (NameE ''plt'') ''yscale'') [StrE ''log'']),
       ExprS (CallE (AttrE (NameE ''plt'') ''ylabel'') [StrE ''$v$ [m/s]'']),
       ExprS (CallE (AttrE (NameE ''plt'') ''xlabel'') [StrE ''time [s]'']),
       ExprS (CallE (AttrE (NameE ''plt'') ''tight_layout'') []),
       ExprS (CallE (AttrE (NameE ''plt'') ''show'') [])],
      [AssignS
         [SubscriptE (SubscriptE (NameE ''set_dict'') (StrE ''SET_DICT_CNS'')) (StrE ''H'')]
         (LitE ''0.3''),
       ExprS (CallE (AttrE (NameE ''p'') ''settings'') [NameE ''set_dict'']),
       ExprS (CallE (AttrE (NameE ''p'') ''render_mesh'') []),
       ExprS (CallE (AttrE (NameE ''p'') ''write_input'') []),
       ExprS (CallE (AttrE (NameE ''p'') ''run'') []),
       ExprS (CallE (AttrE (NameE ''p'') ''read_output'') []),
       ExprS (CallE (AttrE (NameE ''plt'') ''figure'') []),
       ExprS (CallE (AttrE (NameE ''plt'') ''subplot'') [LitE ''311'']),
       ExprS
         (CallE
           (AttrE (NameE ''plt'') ''plot'')
           [SubscriptE (AttrE (NameE ''p'') ''ot'') (StrE ''t''),
            BinOpE
              (SubscriptE (AttrE (NameE ''p'') ''ot'') (StrE ''tau''))
              ''/''
              (SubscriptE (NameE ''set_dict'') (StrE ''SIGMA''))]),
       ExprS
         (CallE
           (AttrE (NameE ''plt'') ''ylabel'')
           [StrE (''$'' @ [CHR 0x5C] @ ''tau / '' @ [CHR 0x5C] @ ''sigma$ [-]'')]),
       ExprS (CallE (AttrE (NameE ''plt'') ''subplot'') [LitE ''312'']),
       ExprS
         (CallE
           (AttrE (NameE ''plt'') ''plot'')
           [SubscriptE (AttrE (NameE ''p'') ''ot'') (StrE ''t''),
            BinOpE (LitE ''100'') ''*'' (SubscriptE (AttrE (NameE ''p'') ''ot'') (StrE ''theta''))]),
       ExprS (CallE (AttrE (NameE ''plt'') ''ylabel'') [StrE (''$'' @ [CHR 0x5C] @ ''phi$ [%]'')]),
       ExprS (CallE (AttrE (NameE ''plt'') ''subplot'') [LitE ''313'']),
       ExprS
         (CallE
           (AttrE (NameE ''plt'') ''plot'')
           [SubscriptE (AttrE (NameE ''p'') ''ot'') (StrE ''t''),
            SubscriptE (AttrE (NameE ''p'') ''ot'') (StrE ''v'')]),
       ExprS (CallE (AttrE (NameE ''plt'') ''yscale'') [StrE ''log'']),
       ExprS (CallE (AttrE (NameE ''plt'') ''ylabel'') [StrE ''$v$ [m/s]'']),
       ExprS (CallE (AttrE (NameE ''plt'') ''xlabel'') [StrE ''time [s]'']),
       ExprS (CallE (AttrE (NameE ''plt'') ''tight_layout'') []),
       ExprS (CallE (AttrE (NameE ''plt'') ''show'') [])],
      []]"

definition mnist_basic_code :: "pstmt list list" where
  "mnist_basic_code =
     [[ImportS ''import tensorflow as tf'',
       ImportS ''from tensorflow import keras'',
       ImportS ''import numpy as np'',
       ImportS ''import matplotlib.pyplot as plt'',
       ImportS ''import os'',
       AssignS
         [SubscriptE (AttrE (NameE ''os'') ''environ'') (StrE ''CUDA_DEVICE_ORDER'')]
         (StrE ''PCI_BUS_ID''),
       AssignS
         [SubscriptE (AttrE (NameE ''os'') ''environ'') (StrE ''CUDA_VISIBLE_DEVICES'')]
         (StrE '''')],
      [AssignS [NameE ''mnist''] (AttrE (AttrE (NameE ''keras'') ''datasets'') ''mnist''),
       AssignS
         [TupleE
            [TupleE [NameE ''train_images'', NameE ''train_labels''],
             TupleE [NameE ''test_images'', NameE ''test_labels'']]]
         (CallE (AttrE (NameE ''mnist'') ''load_data'') []),
       ExprS
         (CallE
           (NameE ''print'')
           [AttrE (NameE ''train_images'') ''shape'', AttrE (NameE ''test_images'') ''shape''])],
      [AssignS
         [TupleE [NameE ''fig'', NameE ''axes'']]
         (CallE
           (AttrE (NameE ''plt'') ''subplots'')
           [KwE ''nrows'' (LitE ''5''), KwE ''ncols'' (LitE ''10'')]),
       ForS
         (NameE ''i'')
         (CallE (NameE ''range'') [LitE ''5''])
         [ForS
            (NameE ''j'')
            (CallE (NameE ''range'') [LitE ''10''])
            [AssignS
               [NameE ''n'']
               (BinOpE (BinOpE (NameE ''i'') ''*'' (LitE ''10'')) ''+'' (NameE ''j'')),
             ExprS
               (CallE
                 (AttrE
                   (SubscriptE (NameE ''axes'') (TupleE [NameE ''i'', NameE ''j'']))
                   ''set_title'')
                 [BinOpE (StrE ''%d'') ''%'' (SubscriptE (NameE ''train_labels'') (NameE ''n''))]),
             ExprS
               (CallE
                 (AttrE
                   (SubscriptE (NameE ''axes'') (TupleE [NameE ''i'', NameE ''j'']))
                   ''imshow'')
                 [SubscriptE (NameE ''train_images'') (NameE ''n''), KwE ''cmap'' (StrE ''gray'')]),
             ExprS
               (CallE
                 (AttrE
                   (SubscriptE (NameE ''axes'') (TupleE [NameE ''i'', NameE ''j'']))
                   ''axis'')
                 [StrE ''off''])]],
       ExprS (CallE (AttrE (NameE ''plt'') ''tight_layout'') []),
       ExprS (CallE (AttrE (NameE ''plt'') ''show'') [])],
      [AssignS [NameE ''train_images''] (BinOpE (NameE ''train_images'') ''/'' (LitE ''255.0'')),
       AssignS [NameE ''test_images''] (BinOpE (NameE ''test_images'') ''/'' (LitE ''255.0''))],
      [AssignS
         [NameE ''model'']
         (CallE
           (AttrE (NameE ''keras'') ''Sequential'')
           [ListE
              [CallE
                 (AttrE (AttrE (NameE ''keras'') ''layers'') ''Flatten'')
                 [KwE
                    ''input_shape''
                    (AttrE (SubscriptE (NameE ''train_images'') (LitE ''0'')) ''shape'')],
               CallE
                 (AttrE (AttrE (NameE ''keras'') ''layers'') ''Dense'')
                 [LitE ''128'', KwE ''activation'' (AttrE (AttrE (NameE ''tf'') ''nn'') ''relu'')],
               CallE
                 (AttrE (AttrE (NameE ''keras'') ''layers'') ''Dense'')
                 [LitE ''10'',
                  KwE ''activation'' (AttrE (AttrE (NameE ''tf'') ''nn'') ''softmax'')]]])],
      [ExprS
         (CallE
           (AttrE (NameE ''model'') ''compile'')
           [KwE ''optimizer'' (StrE ''adam''),
            KwE ''loss'' (StrE ''sparse_categorical_crossentropy''),
            KwE ''metrics'' (ListE [StrE ''accuracy''])]),
       ExprS (CallE (NameE ''print'') [CallE (AttrE (NameE ''model'') ''summary'') []])],
      [ExprS
         (CallE
           (AttrE (NameE ''model'') ''fit'')
           [NameE ''train_images'',
            NameE ''train_labels'',
            KwE ''validation_data'' (TupleE [NameE ''test_images'', NameE ''test_labels'']),
            KwE ''verbose'' (LitE ''1''),
            KwE ''epochs'' (LitE ''5'')])],
      [AssignS
         [TupleE [NameE ''test_loss'', NameE ''test_acc'']]
         (CallE
           (AttrE (NameE ''model'') ''evaluate'')
           [NameE ''test_images'', NameE ''test_labels'']),
       AssignS
         [NameE ''predictions'']
         (CallE (AttrE (NameE ''model'') ''predict'') [NameE ''test_images'']),
       ExprS
         (CallE
           (NameE ''print'')
           [BinOpE (StrE ''Test accuracy: %.4f'') ''%'' (NameE ''test_acc'')])],
      [AssignS
         [TupleE [NameE ''fig'', NameE ''axes'']]
         (CallE
           (AttrE (NameE ''plt'') ''subplots'')
           [KwE ''nrows'' (LitE ''5''), KwE ''ncols'' (LitE ''10'')]),
       ForS
         (NameE ''i'')
         (CallE (NameE ''range'') [LitE ''5''])
         [ForS
            (NameE ''j'')
            (CallE (NameE ''range'') [LitE ''10''])
            [AssignS
               [NameE ''n'']
               (BinOpE (BinOpE (NameE ''i'') ''*'' (LitE ''10'')) ''+'' (NameE ''j'')),
             AssignS
               [NameE ''pred_num'']
               (CallE
                 (AttrE (NameE ''np'') ''argmax'')
                 [SubscriptE (NameE ''predictions'') (NameE ''n'')]),
             IfS
               (CompareE
                 (NameE ''pred_num'')
                 ''==''
                 (SubscriptE (NameE ''test_labels'') (NameE ''n'')))
               [AssignS [NameE ''colour''] (StrE ''g'')]
               [AssignS [NameE ''colour''] (StrE ''r'')],
             ExprS
               (CallE
                 (AttrE
                   (SubscriptE (NameE ''axes'') (TupleE [NameE ''i'', NameE ''j'']))
                   ''set_title'')
                 [BinOpE
                    (StrE ''%d / %d'')
                    ''%''
                    (TupleE
                      [SubscriptE (NameE ''test_labels'') (NameE ''n''), NameE ''pred_num'']),
                  KwE ''c'' (NameE ''colour'')]),
             ExprS
               (CallE
                 (AttrE
                   (SubscriptE (NameE ''axes'') (TupleE [NameE ''i'', NameE ''j'']))
                   ''imshow'')
                 [SubscriptE (NameE ''test_images'') (NameE ''n''), KwE ''cmap'' (StrE ''gray'')]),
             ExprS
               (CallE
                 (AttrE
                   (SubscriptE (NameE ''axes'') (TupleE [NameE ''i'', NameE ''j'']))
                   ''axis'')
                 [StrE ''off''])]],
       ExprS (CallE (AttrE (NameE ''plt'') ''tight_layout'') []),
       ExprS (CallE (AttrE (NameE ''plt'') ''show'') [])],
      [AssignS
         [NameE ''model'']
         (CallE
           (AttrE (NameE ''keras'') ''Sequential'')
           [ListE
              [CallE
                 (AttrE (AttrE (NameE ''keras'') ''layers'') ''Flatten'')
                 [KwE
                    ''input_shape''
                    (AttrE (SubscriptE (NameE ''train_images'') (LitE ''0'')) ''shape'')],
               CallE
                 (AttrE (AttrE (NameE ''keras'') ''layers'') ''Dense'')
                 [LitE ''64'', KwE ''activation'' (AttrE (AttrE (NameE ''tf'') ''nn'') ''tanh'')],
               CallE
                 (AttrE (AttrE (NameE ''keras'') ''layers'') ''Dense'')
                 [LitE ''32'', KwE ''activation'' (AttrE (AttrE (NameE ''tf'') ''nn'') ''elu'')],
               CallE
                 (AttrE (AttrE (NameE ''keras'') ''layers'') ''Dense'')
                 [LitE ''16'', KwE ''activation'' (AttrE (AttrE (NameE ''tf'') ''nn'') ''selu'')],
               CallE
                 (AttrE (AttrE (NameE ''keras'') ''layers'') ''Dense'')
                 [LitE ''10'',
                  KwE ''activation'' (AttrE (AttrE (NameE ''tf'') ''nn'') ''softmax'')]]]),
       ExprS
         (CallE
           (AttrE (NameE ''model'') ''compile'')
           [KwE ''optimizer'' (StrE ''adam''),
            KwE ''loss'' (StrE ''sparse_categorical_crossentropy''),
            KwE ''metrics'' (ListE [StrE ''accuracy''])]),
       ExprS
         (CallE
           (AttrE (NameE ''model'') ''fit'')
           [NameE ''train_images'',
            NameE ''train_labels'',
            KwE ''validation_data'' (TupleE [NameE ''test_images'', NameE ''test_labels'']),
            KwE ''verbose'' (LitE ''1''),
            KwE ''epochs'' (LitE ''10'')])],
      []]"


definition notebooks_code :: "pstmt list list list" where
  "notebooks_code =
     [single_asperity_code, double_asperity_code, cns_spring_block_code, mnist_basic_code]"

text \<open>All expressions inside an expression, the expression itself first.\<close>

fun subexprs :: "expr \<Rightarrow> expr list" where
  "subexprs (NameE n) = [NameE n]"
| "subexprs (AttrE e a) = AttrE e a # subexprs e"
| "subexprs (StrE s) = [StrE s]"
| "subexprs (LitE s) = [LitE s]"
| "subexprs (CallE f as) = CallE f as # subexprs f @ concat (map subexprs as)"
| "subexprs (KwE k e) = KwE k e # subexprs e"
| "subexprs (ListE es) = ListE es # concat (map subexprs es)"
| "subexprs (TupleE es) = TupleE es # concat (map subexprs es)"
| "subexprs (SubscriptE e i) = SubscriptE e i # subexprs e @ subexprs i"
| "subexprs (BinOpE l opr r) = BinOpE l opr r # subexprs l @ subexprs r"
| "subexprs (UnaryOpE opr e) = UnaryOpE opr e # subexprs e"
| "subexprs (CompareE l opr r) = CompareE l opr r # subexprs l @ subexprs r"
| "subexprs (LambdaE xs e) = LambdaE xs e # subexprs e"
| "subexprs (IfExpE c a b) = IfExpE c a b # subexprs c @ subexprs a @ subexprs b"

text \<open>The expressions a statement is written with, without those of nested statements.\<close>

fun own_exprs :: "pstmt \<Rightarrow> expr list" where
  "own_exprs (AssignS ts v) = ts @ [v]"
| "own_exprs (AugAssignS t opr v) = [t, v]"
| "own_exprs (ExprS e) = [e]"
| "own_exprs (ImportS m) = []"
| "own_exprs (MagicS m) = []"
| "own_exprs (ForS t it body) = [t, it]"
| "own_exprs (IfS c a b) = [c]"
| "own_exprs (WhileS c body) = [c]"
| "own_exprs (WithS es body) = es"
| "own_exprs (TryS body handler) = []"
| "own_exprs (RaiseS e) = [e]"
| "own_exprs (AssertS e) = [e]"
| "own_exprs (DefS f body) = []"
| "own_exprs (ClassS c body) = []"
| "own_exprs (ReturnS e) = [e]"

text \<open>A statement and all statements nested in it.\<close>

fun substmts :: "pstmt \<Rightarrow> pstmt list" where
  "substmts (ForS t it body) = ForS t it body # concat (map substmts body)"
| "substmts (IfS c a b) = IfS c a b # concat (map substmts a) @ concat (map substmts b)"
| "substmts (WhileS c body) = WhileS c body # concat (map substmts body)"
| "substmts (WithS es body) = WithS es body # concat (map substmts body)"
| "substmts (TryS body handler) =
     TryS body handler # concat (map substmts body) @ concat (map substmts handler)"
| "substmts (DefS f body) = DefS f body # concat (map substmts body)"
| "substmts (ClassS c body) = ClassS c body # concat (map substmts body)"
| "substmts s = [s]"

definition statements :: "pstmt list list \<Rightarrow> pstmt list" where
  "statements nb = concat (map substmts (concat nb))"

definition exprs_of :: "pstmt list \<Rightarrow> expr list" where
  "exprs_of ss = concat (map subexprs (concat (map own_exprs ss)))"

definition expressions :: "pstmt list list \<Rightarrow> expr list" where
  "expressions nb = exprs_of (statements nb)"

text \<open>The dotted name an expression spells, as \<open>keras.layers.Dense\<close>.\<close>

fun dotted :: "expr \<Rightarrow> string option" where
  "dotted (NameE n) = Some n"
| "dotted (AttrE e a) = (case dotted e of None \<Rightarrow> None | Some d \<Rightarrow> Some (d @ ''.'' @ a))"
| "dotted e = None"

subsection \<open>Error handling in a syntax tree\<close>

text \<open>
  The statements that define, raise or handle errors: \<open>try\<close>, \<open>raise\<close>,
  \<open>assert\<close>, a class definition (the only way to define an exception type) and
  \<open>with\<close> (a context manager may swallow an exception).
\<close>

fun handles_errors :: "pstmt \<Rightarrow> bool" where
  "handles_errors (TryS body handler) = True"
| "handles_errors (RaiseS e) = True"
| "handles_errors (AssertS e) = True"
| "handles_errors (ClassS c body) = True"
| "handles_errors (WithS es body) = True"
| "handles_errors s = False"

text \<open>A call of one of the five pipeline methods of the wrapper object \<open>p\<close>.\<close>

definition wrapper_methods :: "string list" where
  "wrapper_methods = [''settings'', ''render_mesh'', ''write_input'', ''run'', ''read_output'']"

definition is_wrapper_call :: "expr \<Rightarrow> bool" where
  "is_wrapper_call e =
     (case e of
        CallE f as \<Rightarrow>
          (case dotted f of
             None \<Rightarrow> False
           | Some d \<Rightarrow> d \<in> set (map (\<lambda>m. ''p.'' @ m) wrapper_methods))
      | _ \<Rightarrow> False)"

text \<open>
  A statement discards the result of the wrapper: a pipeline call in it is the whole
  statement, so its value is bound to no name and tested by nothing.
\<close>

definition discards_result :: "pstmt \<Rightarrow> bool" where
  "discards_result s =
     list_all (\<lambda>e. if is_wrapper_call e then s = ExprS e else True)
       (concat (map subexprs (own_exprs s)))"

text \<open>The tests a notebook branches on: of \<open>if\<close> and \<open>while\<close> statements and of conditional expressions.\<close>

fun stmt_test :: "pstmt \<Rightarrow> expr list" where
  "stmt_test (IfS c a b) = [c]"
| "stmt_test (WhileS c body) = [c]"
| "stmt_test s = []"

fun expr_test :: "expr \<Rightarrow> expr list" where
  "expr_test (IfExpE c a b) = [c]"
| "expr_test e = []"

definition branch_tests :: "pstmt list list \<Rightarrow> expr list" where
  "branch_tests nb =
     concat (map stmt_test (statements nb)) @ concat (map expr_test (expressions nb))"

definition error_handling_free :: "pstmt list list \<Rightarrow> bool" where
  "error_handling_free nb =
     list_all (\<lambda>s. \<not> handles_errors s \<and> discards_result s) (statements nb)"

text \<open>
  Running a cell.  What a statement other than \<open>try\<close> does is an argument: from a
  state it either completes or raises an error, and in both cases leaves a state.
  Python runs the statements in order and stops at the first that raises; a \<open>try\<close>
  runs its body, and its handler (taken here to catch every error) if the body raises.
  The third component of the result lists the errors raised on the way, each with the
  statement that raised it and the state it left.
\<close>

fun run :: "(pstmt \<Rightarrow> 'st \<Rightarrow> 'e option \<times> 'st) \<Rightarrow> pstmt list \<Rightarrow> 'st
    \<Rightarrow> 'e option \<times> 'st \<times> (pstmt \<times> 'e \<times> 'st) list" where
  "run sem [] s = (None, s, [])"
| "run sem (TryS body handler # rest) s =
     (case run sem body s of
        (None, s1, l1) \<Rightarrow>
          (case run sem rest s1 of (r, s2, l2) \<Rightarrow> (r, s2, l1 @ l2))
      | (Some e, s1, l1) \<Rightarrow>
          (case run sem handler s1 of
             (None, s2, l2) \<Rightarrow>
               (case run sem rest s2 of (r, s3, l3) \<Rightarrow> (r, s3, l1 @ l2 @ l3))
           | (Some e', s2, l2) \<Rightarrow> (Some e', s2, l1 @ l2)))"
| "run sem (c # rest) s =
     (case sem c s of
        (None, s1) \<Rightarrow> run sem rest s1
      | (Some e, s1) \<Rightarrow> (Some e, s1, [(c, e, s1)]))"

subsection \<open>What the classifier is built from\<close>

text \<open>
  The names through which the classifier notebook reaches the framework: the modules
  \<open>tf\<close> and \<open>keras\<close>, and the variables \<open>mnist\<close> and \<open>model\<close> that hold objects
  of the framework.
\<close>

definition framework_roots :: "string list" where
  "framework_roots = [''tf'', ''keras'', ''mnist'', ''model'']"

definition root_of :: "string \<Rightarrow> string" where
  "root_of d = takeWhile (\<lambda>c. c \<noteq> CHR ''.'') d"

definition framework_refs :: "expr list \<Rightarrow> string list" where
  "framework_refs es =
     filter (\<lambda>d. root_of d \<in> set framework_roots) (List.map_filter dotted es)"

text \<open>The dotted names of the framework that the classifier notebook may use.\<close>

definition framework_names :: "string list" where
  "framework_names =
     [''keras'', ''keras.datasets'', ''keras.datasets.mnist'', ''mnist'', ''mnist.load_data'',
      ''keras.Sequential'', ''keras.layers'', ''keras.layers.Flatten'', ''keras.layers.Dense'',
      ''tf'', ''tf.nn'', ''tf.nn.relu'', ''tf.nn.softmax'', ''tf.nn.tanh'', ''tf.nn.elu'',
      ''tf.nn.selu'',
      ''model'', ''model.compile'', ''model.summary'', ''model.fit'', ''model.evaluate'',
      ''model.predict'']"

text \<open>An activation function of the framework, as the notebook passes it to a layer.\<close>

definition framework_activation :: "expr \<Rightarrow> bool" where
  "framework_activation a =
     (dotted a \<in> set (map Some
        [''tf.nn.relu'', ''tf.nn.softmax'', ''tf.nn.tanh'', ''tf.nn.elu'', ''tf.nn.selu'']))"

text \<open>
  A layer of the framework: \<open>keras.layers.Flatten(input_shape=...)\<close>, or
  \<open>keras.layers.Dense(units, activation=a)\<close> with an activation of the framework.
\<close>

definition framework_layer :: "expr \<Rightarrow> bool" where
  "framework_layer l =
     (case l of
        CallE f as \<Rightarrow>
          if dotted f = Some ''keras.layers.Flatten''
          then (case as of [KwE k v] \<Rightarrow> k = ''input_shape'' | _ \<Rightarrow> False)
          else if dotted f = Some ''keras.layers.Dense''
          then (case as of
                  [LitE n, KwE k a] \<Rightarrow> k = ''activation'' \<and> framework_activation a
                | _ \<Rightarrow> False)
          else False
      | _ \<Rightarrow> False)"

text \<open>The calls of a given dotted name, and the argument lists they are made with.\<close>

definition calls_of :: "string \<Rightarrow> expr list \<Rightarrow> expr list list" where
  "calls_of d es =
     List.map_filter
       (\<lambda>e. case e of CallE f as \<Rightarrow> (if dotted f = Some d then Some as else None) | _ \<Rightarrow> None) es"

text \<open>Every model is a \<open>keras.Sequential\<close> of one list of framework layers.\<close>

definition models_prebuilt :: "expr list \<Rightarrow> bool" where
  "models_prebuilt es =
     list_all (\<lambda>as. case as of [ListE ls] \<Rightarrow> list_all framework_layer ls | _ \<Rightarrow> False)
       (calls_of ''keras.Sequential'' es)"

text \<open>The methods called on \<open>model\<close>, in the order of the notebook.\<close>

definition model_calls :: "expr list \<Rightarrow> string list" where
  "model_calls es =
     List.map_filter
       (\<lambda>e. case e of
               CallE (AttrE (NameE n) m) as \<Rightarrow> (if n = ''model'' then Some m else None)
             | _ \<Rightarrow> None) es"

text \<open>The statements nested in loops, the definitions, and the arithmetic of a notebook.\<close>

fun loop_body :: "pstmt \<Rightarrow> pstmt list" where
  "loop_body (ForS t it body) = concat (map substmts body)"
| "loop_body (WhileS c body) = concat (map substmts body)"
| "loop_body s = []"

fun is_definition :: "pstmt \<Rightarrow> bool" where
  "is_definition (DefS f body) = True"
| "is_definition (ClassS c body) = True"
| "is_definition s = False"

fun is_lambda :: "expr \<Rightarrow> bool" where
  "is_lambda (LambdaE xs e) = True"
| "is_lambda e = False"

fun is_arithmetic :: "expr \<Rightarrow> bool" where
  "is_arithmetic (BinOpE l opr r) = True"
| "is_arithmetic (UnaryOpE opr e) = True"
| "is_arithmetic e = False"

fun is_aug_assign :: "pstmt \<Rightarrow> bool" where
  "is_aug_assign (AugAssignS t opr v) = True"
| "is_aug_assign s = False"

definition loop_exprs :: "pstmt list list \<Rightarrow> expr list" where
  "loop_exprs nb = exprs_of (concat (map loop_body (statements nb)))"

section \<open>The element count\<close>

text \<open>
  C1.  The claim holds of the comment above the line, "Find next power of two for number
  of mesh elements", and not of the line: with \<open>resolution = 1\<close>, \<open>L = 1\<close> and
  \<open>Lb = 4\<close> the ratio is \<open>1/4\<close>, the rounded-up logarithm is \<open>-2\<close>,
  \<open>2 ** -2 = 0.25\<close> and \<open>int\<close> truncates it to \<open>N = 0\<close>, which is smaller
  than the ratio and is no power of two.  Every value on the way is a double, so any
  \<open>log2\<close> that is exact on the power of two \<open>1/4\<close> gives this result.
\<close>

theorem mesh_elements_small_ratio:
  assumes "lg (1 / 4) = - 2"
  shows "mesh_elements lg 1 1 4 = Inr 0 \<and> real_of_int 0 < 1 * 1 / (4::real)"
proof -
  have "pow2_ceil_log2 lg (1 / 4) = Inr 0"
    using assms by (simp add: pow2_ceil_log2_def py_int_def powr_minus)
  then show ?thesis by (simp add: mesh_elements_def float_div_def)
qed

theorem mesh_elements_small_ratio_witness:
  "log 2 (1 / 4) = - 2
   \<and> mesh_elements (log 2) 1 1 4 = Inr 0 \<and> real_of_int 0 < 1 * 1 / (4::real)"
proof -
  have l: "log 2 (1 / 4) = - 2"
    using log_nat_power [of 2 2 2] by (simp add: log_divide)
  show ?thesis using mesh_elements_small_ratio [of "log 2", OF l] l by simp
qed


section \<open>The two asperities\<close>

lemma ratio_times_length:
  fixes f L :: real
  assumes "0 \<le> f" and "f \<le> 1"
  shows "(0 \<le> L \<longrightarrow> 0 \<le> f * L \<and> f * L \<le> L) \<and> (L \<le> 0 \<longrightarrow> L \<le> f * L \<and> f * L \<le> 0)"
proof -
  have a: "0 \<le> L \<Longrightarrow> 0 \<le> f * L" using assms by simp
  have b: "0 \<le> L \<Longrightarrow> f * L \<le> L" using assms by (simp add: mult_left_le_one_le)
  have c: "L \<le> 0 \<Longrightarrow> f * L \<le> 0" using assms by (simp add: mult_nonneg_nonpos)
  have d: "L \<le> 0 \<Longrightarrow> L \<le> f * L"
  proof -
    assume "L \<le> 0"
    then have "f * (- L) \<le> - L" using assms by (intro mult_left_le_one_le) simp_all
    moreover have "f * (- L) = - (f * L)" by simp
    ultimately show ?thesis by linarith
  qed
  show ?thesis using a b c d by blast
qed

lemma asperities_apart:
  assumes "0 \<le> f" and "f \<le> 1"
  shows "\<not> (in_asp1 L f xi \<and> in_asp2 L f xi)"
proof
  define a where "a = f * L"
  have bnd: "(0 \<le> L \<longrightarrow> 0 \<le> a \<and> a \<le> L) \<and> (L \<le> 0 \<longrightarrow> L \<le> a \<and> a \<le> 0)"
    unfolding a_def by (rule ratio_times_length [OF assms])
  have e1: "in_asp1 L f xi = (xi > L / 3 - L / 2 - a / 4 \<and> xi < L / 3 - L / 2 + a / 4)"
    by (simp add: in_asp1_def p1_def L1_def a_def)
  have e2: "in_asp2 L f xi
      = (xi > 2 * L / 3 - L / 2 - (L - a) / 4 \<and> xi < 2 * L / 3 - L / 2 + (L - a) / 4)"
    by (simp add: in_asp2_def p2_def L2_def a_def algebra_simps)
  assume "in_asp1 L f xi \<and> in_asp2 L f xi"
  then have i1: "xi > L / 3 - L / 2 - a / 4" "xi < L / 3 - L / 2 + a / 4"
    and i2: "xi > 2 * L / 3 - L / 2 - (L - a) / 4" "xi < 2 * L / 3 - L / 2 + (L - a) / 4"
    using e1 e2 by simp_all
  show False
  proof (cases "0 \<le> L")
    case True
    then show False using i1(2) i2(1) by argo
  next
    case False
    then have "a \<le> 0" using bnd by simp
    then show False using i1 by argo
  qed
qed

lemma bool_add_masks:
  "bool_add (asp1 L f x) (asp2 L f x) = map (\<lambda>xi. in_asp1 L f xi \<or> in_asp2 L f xi) x"
  by (induction x) (simp_all add: bool_add_def asp1_def asp2_def)

lemma count_true_disjoint:
  assumes "\<And>xi. \<not> (P xi \<and> Q xi)"
  shows "count_true (map (\<lambda>xi. P xi \<or> Q xi) x) = count_true (map P x) + count_true (map Q x)"
  using assms by (induction x) (auto simp add: count_true_def)

text \<open>
  C4.  For every size ratio \<open>f\<close> in \<open>[0, 1]\<close> no position lies in both asperities,
  so the boolean sum \<open>asp1 + asp2\<close> is the union of the two masks: an entry is set
  exactly when one of the two is, and it selects as many elements as the two masks
  together.
\<close>

theorem asperity_masks_disjoint:
  assumes "0 \<le> f" and "f \<le> 1"
  shows "(\<forall>xi. \<not> (in_asp1 L f xi \<and> in_asp2 L f xi))
       \<and> asp_mask L f x = map (\<lambda>xi. in_asp1 L f xi \<or> in_asp2 L f xi) x
       \<and> count_true (asp_mask L f x) = count_true (asp1 L f x) + count_true (asp2 L f x)"
proof -
  have apart: "\<And>xi. \<not> (in_asp1 L f xi \<and> in_asp2 L f xi)"
    by (rule asperities_apart [OF assms])
  have union: "asp_mask L f x = map (\<lambda>xi. in_asp1 L f xi \<or> in_asp2 L f xi) x"
    by (simp add: asp_mask_def bool_add_masks)
  have "count_true (asp_mask L f x)
      = count_true (map (in_asp1 L f) x) + count_true (map (in_asp2 L f) x)"
    unfolding union by (rule count_true_disjoint [OF apart])
  then show ?thesis using apart union by (simp add: asp1_def asp2_def)
qed

theorem asperity_masks_disjoint_witness:
  "(0::real) \<le> 1 / 2 \<and> (1 / 2 :: real) \<le> 1
   \<and> asp_mask 12 (1 / 2) [-6, -2, 2, 6] = [False, True, True, False]
   \<and> count_true (asp_mask 12 (1 / 2) [-6, -2, 2, 6])
       = count_true (asp1 12 (1 / 2) [-6, -2, 2, 6]) + count_true (asp2 12 (1 / 2) [-6, -2, 2, 6])"
  using asperity_masks_disjoint [of "1 / 2" 12 "[-6, -2, 2, 6]"]
  by (simp add: in_asp1_def in_asp2_def p1_def p2_def L1_def L2_def asp1_def asp2_def
      count_true_def)


section \<open>Mirror symmetry of the asperity mask\<close>

lemma linspace_length:
  assumes "linspace a b n = Inr x"
  shows "0 \<le> n \<and> length x = nat n"
  using assms by (auto simp add: linspace_def split: if_splits)

lemma linspace_nth:
  assumes "linspace a b n = Inr x" and "n \<noteq> 1" and "k < nat n"
  shows "x ! k = a + real k * ((b - a) / real (nat n - 1))"
  using assms by (auto simp add: linspace_def split: if_splits)

lemma linspace_mirror:
  assumes "linspace (- L / 2) (L / 2) n = Inr x" and "n \<noteq> 1" and "k < nat n"
  shows "x ! (nat n - 1 - k) = - (x ! k)"
proof -
  define m where "m = nat n - 1"
  have km: "k \<le> m" using assms(3) by (simp add: m_def)
  have mpos: "0 < m" using assms(2,3) by (simp add: m_def)
  have lt: "nat n - 1 - k < nat n" using assms(3) by simp
  have w: "L / 2 - - L / 2 = L" by simp
  have d: "real (m - k) = real m - real k" using km by simp
  have c: "real m * (L / real m) = L" using mpos by simp
  have "x ! (m - k) = - L / 2 + real (m - k) * (L / real m)"
    using linspace_nth [OF assms(1) assms(2) lt] unfolding w by (simp add: m_def)
  also have "\<dots> = - L / 2 + (real m * (L / real m) - real k * (L / real m))"
    unfolding d by (simp only: left_diff_distrib)
  also have "\<dots> = - L / 2 + L - real k * (L / real m)"
    unfolding c by simp
  finally have a: "x ! (m - k) = - L / 2 + L - real k * (L / real m)" .
  have b: "x ! k = - L / 2 + real k * (L / real m)"
    using linspace_nth [OF assms(1) assms(2) assms(3)] unfolding w by (simp add: m_def)
  have "x ! (m - k) = - (x ! k)" unfolding a b by simp
  then show ?thesis by (simp add: m_def)
qed

lemma asp1_mirror: "in_asp1 L f xi = in_asp2 L (1 - f) (- xi)"
  by (auto simp add: in_asp1_def in_asp2_def p1_def p2_def L1_def L2_def)

lemma asp2_mirror: "in_asp2 L f xi = in_asp1 L (1 - f) (- xi)"
  by (auto simp add: in_asp1_def in_asp2_def p1_def p2_def L1_def L2_def)

lemma fault_edge_outside:
  assumes "0 \<le> f" and "f \<le> 1"
  shows "\<not> in_asp1 L f (- L / 2) \<and> \<not> in_asp2 L f (- L / 2)"
proof -
  define a where "a = f * L"
  have bnd: "(0 \<le> L \<longrightarrow> 0 \<le> a \<and> a \<le> L) \<and> (L \<le> 0 \<longrightarrow> L \<le> a \<and> a \<le> 0)"
    unfolding a_def by (rule ratio_times_length [OF assms])
  have e1: "in_asp1 L f (- L / 2)
      = (- L / 2 > L / 3 - L / 2 - a / 4 \<and> - L / 2 < L / 3 - L / 2 + a / 4)"
    by (simp add: in_asp1_def p1_def L1_def a_def)
  have e2: "in_asp2 L f (- L / 2)
      = (- L / 2 > 2 * L / 3 - L / 2 - (L - a) / 4 \<and> - L / 2 < 2 * L / 3 - L / 2 + (L - a) / 4)"
    by (simp add: in_asp2_def p2_def L2_def a_def algebra_simps)
  have "\<not> in_asp1 L f (- L / 2)" unfolding e1 using bnd by (cases "0 \<le> L") argo+
  moreover have "\<not> in_asp2 L f (- L / 2)" unfolding e2 using bnd by (cases "0 \<le> L") argo+
  ultimately show ?thesis by simp
qed

lemma asp_mask_nth:
  assumes "k < length x"
  shows "asp_mask L f x ! k = (in_asp1 L f (x ! k) \<or> in_asp2 L f (x ! k))"
  using assms by (simp add: asp_mask_def bool_add_masks)

text \<open>
  In exact arithmetic, on the grid \<open>x = linspace(-L/2, L/2, N)\<close>, for every size ratio
  \<open>f\<close> in \<open>[0, 1]\<close> and every element index \<open>i\<close> in \<open>0..N-1\<close>, the combined
  mask built with \<open>f\<close> is the mirror image of the one built with \<open>1 - f\<close>.
\<close>

lemma exact_mask_mirror:
  assumes "0 \<le> f" and "f \<le> 1"
    and "linspace (- L / 2) (L / 2) N = Inr x"
    and "0 \<le> i" and "i < N"
  shows "asp_mask L f x ! nat i = asp_mask L (1 - f) x ! nat (N - 1 - i)"
proof -
  have len: "length x = nat N" using linspace_length [OF assms(3)] by simp
  have k: "nat i < nat N" using assms(4,5) by simp
  have idx: "nat (N - 1 - i) = nat N - 1 - nat i" using assms(4,5) by simp
  have k': "nat N - 1 - nat i < nat N" using k by simp
  show ?thesis
  proof (cases "N = 1")
    case True
    then have "x = [- L / 2]" using assms(3) by (simp add: linspace_def)
    moreover have "i = 0" using True assms(4,5) by simp
    moreover have "0 \<le> 1 - f" and "1 - f \<le> 1" using assms(1,2) by simp_all
    then have "\<not> in_asp1 L (1 - f) (- L / 2) \<and> \<not> in_asp2 L (1 - f) (- L / 2)"
      by (rule fault_edge_outside)
    ultimately show ?thesis
      using fault_edge_outside [OF assms(1,2), of L] True
      by (simp add: asp_mask_def bool_add_def asp1_def asp2_def)
  next
    case False
    have mir: "x ! (nat N - 1 - nat i) = - (x ! nat i)"
      by (rule linspace_mirror [OF assms(3) False k])
    have "asp_mask L f x ! nat i = (in_asp1 L f (x ! nat i) \<or> in_asp2 L f (x ! nat i))"
      using k len by (simp add: asp_mask_nth)
    moreover have "asp_mask L (1 - f) x ! (nat N - 1 - nat i)
        = (in_asp1 L (1 - f) (- (x ! nat i)) \<or> in_asp2 L (1 - f) (- (x ! nat i)))"
      using k' len mir by (simp add: asp_mask_nth)
    ultimately show ?thesis
      unfolding idx using asp1_mirror [of L f "x ! nat i"] asp2_mirror [of L f "x ! nat i"]
      by blast
  qed
qed

subsection \<open>The same masks in double precision\<close>

lemma rd_eval:
  assumes "2 ^ 52 \<le> \<bar>v\<bar> * 2 ^ n" and "\<bar>v\<bar> * 2 ^ n < 2 ^ 53" and "n \<le> 1074"
  shows "rd v = of_int (rne (v * 2 ^ n)) / 2 ^ n"
proof -
  have vpos: "0 < \<bar>v\<bar>" using assms(1) by (smt (verit) mult_eq_0_iff zero_less_power)
  have e: "2 powr real k = 2 ^ k" for k :: nat by (simp add: powr_realpow)
  have "2 powr 52 \<le> \<bar>v\<bar> * 2 powr real n"
    using assms(1) e [of n] e [of 52] by simp
  then have "2 powr 52 / 2 powr real n \<le> \<bar>v\<bar>" by (simp add: field_simps)
  then have "2 powr (52 - real n) \<le> \<bar>v\<bar>" by (simp add: powr_diff)
  then have lo: "52 - real n \<le> log 2 \<bar>v\<bar>" using vpos by (simp add: le_log_iff)
  have "\<bar>v\<bar> * 2 powr real n < 2 powr 53"
    using assms(2) e [of n] e [of 53] by simp
  then have "\<bar>v\<bar> < 2 powr 53 / 2 powr real n" by (simp add: field_simps)
  then have "\<bar>v\<bar> < 2 powr (53 - real n)" by (simp add: powr_diff)
  then have hi: "log 2 \<bar>v\<bar> < 53 - real n" using vpos by (simp add: log_less_iff)
  have "\<lfloor>log 2 \<bar>v\<bar>\<rfloor> = 52 - int n" using lo hi by (simp add: floor_eq_iff)
  then have m: "max (\<lfloor>log 2 \<bar>v\<bar>\<rfloor> - 52) (- 1074) = - int n" using assms(3) by simp
  have p: "2 powr real_of_int (- int n) = 1 / 2 ^ n"
    using e [of n] by (simp add: powr_minus field_simps)
  have "v \<noteq> 0" using vpos by simp
  then show ?thesis unfolding rd_def Let_def m p by simp
qed

lemma rd_value:
  assumes "2 ^ 52 \<le> \<bar>v\<bar> * 2 ^ n" and "\<bar>v\<bar> * 2 ^ n < 2 ^ 53" and "n \<le> 1074"
    and "rne (v * 2 ^ n) = m" and "w = of_int m / 2 ^ n"
  shows "rd v = w"
  using rd_eval [OF assms(1,2,3)] assms(4,5) by simp

lemma fl_linspace_nth: "i < n \<Longrightarrow> fl_linspace a b n ! i = fl_point a b n i"
  by (simp add: fl_linspace_def)

lemma fl_asp_mask_nth:
  "i < length x \<Longrightarrow> fl_asp_mask L f x ! i = (fl_in_asp1 L f (x ! i) \<or> fl_in_asp2 L f (x ! i))"
  by (simp add: fl_asp_mask_def bool_add_def)

text \<open>
  C5.  The claim holds of the formulas in exact arithmetic (\<open>exact_mask_mirror\<close>) and
  of the notebook's remark that \<open>f = 0.4\<close> and \<open>f = 0.6\<close> differ only in the order
  of the asperities, and not of the code, which compares rounded grid points with
  rounded bounds.  In the double-asperity notebook with a fault of 5 nucleation lengths
  (\<open>L = 5\<close>) and \<open>f = 0.2\<close>, the fault length is 300.00000000000006, the argument of
  \<open>log2\<close> is 175.00000000000003 and there are \<open>N = 256\<close> elements.  The grid point
  \<open>x[119] = -10.0\<close> lies above the rounded lower bound -10.000000000000014 of the
  second asperity, so the mask of \<open>f = 0.2\<close> is set at index 119; its mirror image
  \<open>x[136] = 10.0\<close> is the rounded upper bound 10.0 of the first asperity of
  \<open>1 - f = 0.8\<close>, so the mask of \<open>0.8\<close> is not set at index \<open>256 - 1 - 119\<close>.
\<close>

theorem mirror_breaks_on_grid_point:
  "L_five = 5277655813324801 / 2 ^ 44
   \<and> fl_ratio 7 L_five Lb_notebook = 6157265115545601 / 2 ^ 45
   \<and> fl_asp_mask L_five (rd (2 / 10)) (fl_grid L_five 256) ! 119 = True
   \<and> fl_asp_mask L_five (rd (1 - rd (2 / 10))) (fl_grid L_five 256) ! (256 - 1 - 119) = False"
proof -
  have r0: "rd (1 / 2500) = 7378697629483821 / 18446744073709551616"
    by (rule rd_value [where n = 64 and m = "7378697629483821"]) (simp_all add: rne_def)
  have r1: "rd (1 / 100) = 5764607523034235 / 576460752303423488"
    by (rule rd_value [where n = 59 and m = "5764607523034235"]) (simp_all add: rne_def)
  have r2: "rd (4 / 5) = 3602879701896397 / 4503599627370496"
    by (rule rd_value [where n = 53 and m = "7205759403792794"]) (simp_all add: rne_def)
  have r3: "rd (216172782113783818359375 / 18014398509481984) = 12000000"
    by (rule rd_value [where n = 29 and m = "6442450944000000"]) (simp_all add: rne_def)
  have r4: "rd (2251799813685248046875 / 2251799813685248) = 1000000"
    by (rule rd_value [where n = 33 and m = "8589934592000000"]) (simp_all add: rne_def)
  have r5: "rd 12 = 12"
    by (rule rd_value [where n = 49 and m = "6755399441055744"]) (simp_all add: rne_def)
  have r6: "rd (900719925474099 / 4503599627370496) = 900719925474099 / 4503599627370496"
    by (rule rd_value [where n = 55 and m = "7205759403792792"]) (simp_all add: rne_def)
  have r7: "rd (18014398509481984 / 300239975158033) = 4222124650659841 / 70368744177664"
    by (rule rd_value [where n = 47 and m = "8444249301319682"]) (simp_all add: rne_def)
  have r8: "rd (21110623253299205 / 70368744177664) = 5277655813324801 / 17592186044416"
    by (rule rd_value [where n = 44 and m = "5277655813324801"]) (simp_all add: rne_def)
  have r9: "rd (36943590693273607 / 17592186044416) = 4617948836659201 / 2199023255552"
    by (rule rd_value [where n = 41 and m = "4617948836659201"]) (simp_all add: rne_def)
  have r10: "rd (4617948836659201 / 26388279066624) = 6157265115545601 / 35184372088832"
    by (rule rd_value [where n = 45 and m = "6157265115545601"]) (simp_all add: rne_def)
  have r11: "rd (1 / 5) = 3602879701896397 / 18014398509481984"
    by (rule rd_value [where n = 55 and m = "7205759403792794"]) (simp_all add: rne_def)
  have r12: "rd (14411518807585587 / 18014398509481984) = 3602879701896397 / 4503599627370496"
    by (rule rd_value [where n = 53 and m = "7205759403792794"]) (simp_all add: rne_def)
  have r13: "rd (3602879701896397 / 36028797018963968) = 3602879701896397 / 36028797018963968"
    by (rule rd_value [where n = 56 and m = "7205759403792794"]) (simp_all add: rne_def)
  have r14: "rd (19014759003423445680861412641997 / 633825300114114700748351602688) = 4222124650659841 / 140737488355328"
    by (rule rd_value [where n = 48 and m = "8444249301319682"]) (simp_all add: rne_def)
  have r15: "rd (3602879701896397 / 9007199254740992) = 3602879701896397 / 9007199254740992"
    by (rule rd_value [where n = 54 and m = "7205759403792794"]) (simp_all add: rne_def)
  have r16: "rd (19014759003423445680861412641997 / 158456325028528675187087900672) = 4222124650659841 / 35184372088832"
    by (rule rd_value [where n = 46 and m = "8444249301319682"]) (simp_all add: rne_def)
  have r17: "rd (5277655813324801 / 52776558133248) = 7036874417766401 / 70368744177664"
    by (rule rd_value [where n = 46 and m = "7036874417766401"]) (simp_all add: rne_def)
  have r18: "rd (5277655813324801 / 35184372088832) = 5277655813324801 / 35184372088832"
    by (rule rd_value [where n = 45 and m = "5277655813324801"]) (simp_all add: rne_def)
  have r19: "rd (- (3518437208883201 / 70368744177664)) = - (3518437208883201 / 70368744177664)"
    by (rule rd_value [where n = 47 and m = "- 7036874417766402"]) (simp_all add: rne_def)
  have r20: "rd (5277655813324801 / 8796093022208) = 5277655813324801 / 8796093022208"
    by (rule rd_value [where n = 43 and m = "5277655813324801"]) (simp_all add: rne_def)
  have r21: "rd (5277655813324801 / 26388279066624) = 7036874417766401 / 35184372088832"
    by (rule rd_value [where n = 45 and m = "7036874417766401"]) (simp_all add: rne_def)
  have r22: "rd 50 = 50"
    by (rule rd_value [where n = 47 and m = "7036874417766400"]) (simp_all add: rne_def)
  have r23: "rd (4222124650659841 / 281474976710656) = 4222124650659841 / 281474976710656"
    by (rule rd_value [where n = 49 and m = "8444249301319682"]) (simp_all add: rne_def)
  have r24: "rd (- (18295873486192645 / 281474976710656)) = - (4573968371548161 / 70368744177664)"
    by (rule rd_value [where n = 46 and m = "- 4573968371548161"]) (simp_all add: rne_def)
  have r25: "rd (- (9851624184872963 / 281474976710656)) = - (2462906046218241 / 70368744177664)"
    by (rule rd_value [where n = 47 and m = "- 4925812092436482"]) (simp_all add: rne_def)
  have r26: "rd (4222124650659841 / 70368744177664) = 4222124650659841 / 70368744177664"
    by (rule rd_value [where n = 47 and m = "8444249301319682"]) (simp_all add: rne_def)
  have r27: "rd (- (703687441776641 / 70368744177664)) = - (703687441776641 / 70368744177664)"
    by (rule rd_value [where n = 49 and m = "- 5629499534213128"]) (simp_all add: rne_def)
  have r28: "rd (7740561859543041 / 70368744177664) = 7740561859543041 / 70368744177664"
    by (rule rd_value [where n = 46 and m = "7740561859543041"]) (simp_all add: rne_def)
  have r29: "rd (900719925474099 / 9007199254740992) = 900719925474099 / 9007199254740992"
    by (rule rd_value [where n = 56 and m = "7205759403792792"]) (simp_all add: rne_def)
  have r30: "rd (4753689750855860100801399829299 / 158456325028528675187087900672) = 30"
    by (rule rd_value [where n = 48 and m = "8444249301319680"]) (simp_all add: rne_def)
  have r31: "rd (- (3870280929771521 / 35184372088832)) = - (3870280929771521 / 35184372088832)"
    by (rule rd_value [where n = 46 and m = "- 7740561859543042"]) (simp_all add: rne_def)
  have r32: "rd 10 = 10"
    by (rule rd_value [where n = 49 and m = "5629499534213120"]) (simp_all add: rne_def)
  have r33: "rd 15 = 15"
    by (rule rd_value [where n = 49 and m = "8444249301319680"]) (simp_all add: rne_def)
  have r34: "rd 35 = 35"
    by (rule rd_value [where n = 47 and m = "4925812092436480"]) (simp_all add: rne_def)
  have r35: "rd 65 = 65"
    by (rule rd_value [where n = 46 and m = "4573968371548160"]) (simp_all add: rne_def)
  have r36: "rd (- (5277655813324801 / 35184372088832)) = - (5277655813324801 / 35184372088832)"
    by (rule rd_value [where n = 45 and m = "- 5277655813324801"]) (simp_all add: rne_def)
  have r37: "rd (5277655813324801 / 17592186044416) = 5277655813324801 / 17592186044416"
    by (rule rd_value [where n = 44 and m = "5277655813324801"]) (simp_all add: rne_def)
  have r38: "rd (5277655813324801 / 4486007441326080) = 1324588125697205 / 1125899906842624"
    by (rule rd_value [where n = 52 and m = "5298352502788820"]) (simp_all add: rne_def)
  have r39: "rd (157625986957967395 / 1125899906842624) = 4925812092436481 / 35184372088832"
    by (rule rd_value [where n = 45 and m = "4925812092436481"]) (simp_all add: rne_def)
  have r40: "rd (- 10) = - 10"
    by (rule rd_value [where n = 49 and m = "- 5629499534213120"]) (simp_all add: rne_def)
  have r41: "rd (22517998136852485 / 140737488355328) = 5629499534213121 / 35184372088832"
    by (rule rd_value [where n = 45 and m = "5629499534213121"]) (simp_all add: rne_def)
  note rs = r0 r1 r2 r3 r4 r5 r6 r7 r8 r9 r10 r11 r12 r13 r14 r15 r16 r17 r18 r19 r20 r21 r22 r23 r24 r25 r26 r27 r28 r29 r30 r31 r32 r33 r34 r35 r36 r37 r38 r39 r40 r41
  have Lb: "Lb_notebook = 12" by (simp add: Lb_notebook_def fl_Lb_def rs)
  have L: "L_five = 5277655813324801 / 17592186044416"
    by (simp add: L_five_def fl_fault_length_def Lb rs)
  have ratio: "fl_ratio 7 L_five Lb_notebook = 6157265115545601 / 35184372088832"
    by (simp add: fl_ratio_def L Lb rs)
  have len: "length (fl_grid L_five 256) = 256" by (simp add: fl_grid_def fl_linspace_def)
  have xi: "fl_grid L_five 256 ! 119 = - 10"
    by (simp add: L fl_grid_def fl_linspace_nth fl_point_def Let_def rs)
  have xj: "fl_grid L_five 256 ! 136 = 10"
    by (simp add: L fl_grid_def fl_linspace_nth fl_point_def Let_def rs)
  have a: "fl_asp_mask L_five (rd (2 / 10)) (fl_grid L_five 256) ! 119 = True"
    by (simp add: fl_asp_mask_nth len xi)
       (simp add: L fl_in_asp1_def fl_in_asp2_def fl_L1_def fl_L2_def fl_p1_def fl_p2_def rs)
  have b: "fl_asp_mask L_five (rd (1 - rd (2 / 10))) (fl_grid L_five 256) ! 136 = False"
    by (simp add: fl_asp_mask_nth len xj)
       (simp add: L fl_in_asp1_def fl_in_asp2_def fl_L1_def fl_L2_def fl_p1_def fl_p2_def rs)
  show ?thesis using L ratio a b by simp
qed

section \<open>Array lengths of the mesh\<close>

lemmas dict_defs = set_items_def set_rsfs_def set_item_def set_rsf_def derive_rsf_def
  get_item_def get_rsf_def float_div_def

lemma and_then_Inr: "and_then m k = Inr r \<longleftrightarrow> (\<exists>v. m = Inr v \<and> k v = Inr r)"
  by (cases m) (simp_all add: and_then_def)

lemma single_configure_rsf:
  assumes "single_configure ps d0 = Inr d"
  shows "set_dict_rsf d ''A'' = Some (c_A ps) \<and> set_dict_rsf d ''B'' = Some (c_B ps)"
  using assms by (auto simp add: single_configure_def dict_defs and_then_def split: if_splits)

lemma double_configure_rsf:
  assumes "double_configure ps d0 = Inr d"
  shows "set_dict_rsf d ''A'' = Some (c_A ps) \<and> set_dict_rsf d ''B'' = Some (c_B ps)"
  using assms by (auto simp add: double_configure_def dict_defs and_then_def split: if_splits)

lemma make_grid_Inr:
  assumes "make_grid lg res Lb Lc Lasp L d = Inr g"
  shows "0 \<le> g_N g \<and> length (g_x g) = nat (g_N g)
       \<and> main (g_dict g) ''N'' = Some (of_int (g_N g))
       \<and> set_dict_rsf (g_dict g) = set_dict_rsf d"
proof -
  obtain N x where n: "mesh_elements lg res L Lb = Inr N"
    and x: "linspace (- L / 2) (L / 2) N = Inr x"
    and g: "g = \<lparr>g_dict = set_items [(''N'', of_int N), (''L'', L), (''IC'', of_int (N div 2))] d,
            g_Lb = Lb, g_Lc = Lc, g_Lasp = Lasp, g_L = L, g_N = N, g_x = x\<rparr>"
    using assms by (auto simp add: make_grid_def and_then_Inr)
  show ?thesis using linspace_length [OF x] by (simp add: g set_items_def set_item_def)
qed

lemma single_grid_Inr:
  assumes "single_grid lg ps d0 = Inr g"
  shows "0 \<le> g_N g \<and> length (g_x g) = nat (g_N g)
       \<and> main (g_dict g) ''N'' = Some (of_int (g_N g))
       \<and> set_dict_rsf (g_dict g) ''A'' = Some (c_A ps)
       \<and> set_dict_rsf (g_dict g) ''B'' = Some (c_B ps)"
proof -
  obtain d Lb Lc where c: "single_configure ps d0 = Inr d"
    and m: "make_grid lg (c_resolution ps) Lb Lc (c_Lasp ps * Lc) (c_L ps * (c_Lasp ps * Lc)) d = Inr g"
    using assms by (auto simp add: single_grid_def and_then_Inr Let_def)
  show ?thesis using make_grid_Inr [OF m] single_configure_rsf [OF c] by simp
qed

lemma double_grid_Inr:
  assumes "double_grid lg ps d0 = Inr g"
  shows "0 \<le> g_N g \<and> length (g_x g) = nat (g_N g)
       \<and> main (g_dict g) ''N'' = Some (of_int (g_N g))
       \<and> set_dict_rsf (g_dict g) ''A'' = Some (c_A ps)
       \<and> set_dict_rsf (g_dict g) ''B'' = Some (c_B ps)"
proof -
  obtain d Lb Lc where c: "double_configure ps d0 = Inr d"
    and m: "make_grid lg (c_resolution ps) Lb Lc (c_Lasp ps) (c_L ps * Lc) d = Inr g"
    using assms by (auto simp add: double_grid_def and_then_Inr Let_def)
  show ?thesis using make_grid_Inr [OF m] double_configure_rsf [OF c] by simp
qed

lemma scatter_length: "length (scatter a m vs) = length a"
  by (induction a m vs rule: scatter.induct) simp_all

lemma mask_assign_length: "mask_assign a m vs = Inr a' \<Longrightarrow> length a' = length a"
  by (auto simp add: mask_assign_def scatter_length split: if_splits)

lemma render_mesh_Inr:
  assumes "render_mesh d = Inr mesh" and "main d ''N'' = Some (of_int N)"
    and "set_dict_rsf d k = Some v"
  shows "mesh k = Some (replicate (nat N) v)"
  using assms by (auto simp add: render_mesh_def and_then_Inr get_item_def)

lemma render_mesh_lengths:
  assumes "render_mesh d = Inr mesh" and "main d ''N'' = Some (of_int N)"
    and "mesh k = Some a"
  shows "length a = nat N"
  using assms
  by (auto simp add: render_mesh_def and_then_Inr get_item_def split: option.splits)

lemma single_lengths:
  assumes "single_cell lg ps d0 = Inr (g, mesh)"
  shows "0 \<le> g_N g \<and> length (g_x g) = nat (g_N g)
       \<and> (\<exists>a. mesh ''A'' = Some a \<and> length a = nat (g_N g))
       \<and> (\<forall>k a. mesh k = Some a \<longrightarrow> length a = nat (g_N g))"
proof -
  obtain m0 b where g: "single_grid lg ps d0 = Inr g"
    and r: "render_mesh (g_dict g) = Inr m0"
    and mesh: "mesh = m0(''A'' \<mapsto> single_A b (1 - c_ab_ratio ps) (g_Lasp g) (g_x g))"
    using assms by (auto simp add: single_cell_def and_then_Inr)
  have k: "0 \<le> g_N g" "length (g_x g) = nat (g_N g)"
    "main (g_dict g) ''N'' = Some (of_int (g_N g))"
    using single_grid_Inr [OF g] by simp_all
  have "\<forall>k a. m0 k = Some a \<longrightarrow> length a = nat (g_N g)"
    using render_mesh_lengths [OF r k(3)] by blast
  then show ?thesis using k(1,2) by (simp add: mesh single_A_def)
qed

lemma double_lengths:
  assumes "double_cell lg ps d0 = Inr (g, mesh)"
  shows "0 \<le> g_N g \<and> length (g_x g) = nat (g_N g)
       \<and> (\<exists>a. mesh ''A'' = Some a \<and> length a = nat (g_N g))
       \<and> (\<forall>k a. mesh k = Some a \<longrightarrow> length a = nat (g_N g))"
proof -
  obtain m0 sel as as' where g: "double_grid lg ps d0 = Inr g"
    and r: "render_mesh (g_dict g) = Inr m0"
    and a: "get_mesh m0 ''A'' = Inr as"
    and w: "mask_assign as (asp_mask (g_L g) (c_f ps) (g_x g))
              (map (\<lambda>b. c_ab_ratio ps * b) sel) = Inr as'"
    and mesh: "mesh = m0(''A'' \<mapsto> as')"
    using assms by (auto simp add: double_cell_def and_then_Inr Let_def)
  have k: "0 \<le> g_N g" "length (g_x g) = nat (g_N g)"
    "main (g_dict g) ''N'' = Some (of_int (g_N g))"
    using double_grid_Inr [OF g] by simp_all
  have all: "\<forall>k a. m0 k = Some a \<longrightarrow> length a = nat (g_N g)"
    using render_mesh_lengths [OF r k(3)] by blast
  have "m0 ''A'' = Some as" using a by (auto simp add: get_mesh_def split: option.splits)
  then have "length as = nat (g_N g)" using all by blast
  then have "length as' = nat (g_N g)" using mask_assign_length [OF w] by simp
  then show ?thesis using k(1,2) all by (simp add: mesh)
qed

text \<open>The element counts of the two notebooks as they stand: 2048 and 1024.\<close>

lemma pow2_ceil_log2_between:
  fixes k :: nat
  assumes "2 ^ k < r" and "r \<le> 2 ^ Suc k" and "Suc k < 1024"
  shows "pow2_ceil_log2 (log 2) r = Inr (2 ^ Suc k)"
proof -
  have e: "2 powr real n = 2 ^ n" for n :: nat by (simp add: powr_realpow)
  have "(0::real) < 2 ^ k" by simp
  then have rpos: "0 < r" using assms(1) by linarith
  have "2 powr real k < r" unfolding e by (rule assms(1))
  then have lo: "real k < log 2 r" using rpos by (simp add: less_log_iff)
  have "r \<le> 2 powr real (Suc k)" unfolding e by (rule assms(2))
  then have hi: "log 2 r \<le> real (Suc k)" using rpos by (simp only: log_le_iff)
  have c: "\<lceil>log 2 r\<rceil> = int (Suc k)" using lo hi by (simp add: ceiling_eq_iff)
  have "2 powr real_of_int (int (Suc k)) = 2 ^ Suc k"
    by (metis e of_int_of_nat_eq)
  moreover have "\<lfloor>(2::real) ^ Suc k\<rfloor> = 2 ^ Suc k"
    by (metis floor_of_int of_int_numeral of_int_power)
  ultimately show ?thesis
    using rpos assms(3) unfolding pow2_ceil_log2_def c by (simp add: py_int_def)
qed

lemma single_N: "mesh_elements (log 2) 7 2100 12 = Inr 2048"
  using pow2_ceil_log2_between [of 10 "7 * 2100 / 12"]
  by (simp add: mesh_elements_def float_div_def)

lemma double_N: "mesh_elements (log 2) 7 900 12 = Inr 1024"
  using pow2_ceil_log2_between [of 9 "7 * 900 / 12"]
  by (simp add: mesh_elements_def float_div_def)

lemma single_cell_notebook:
  "\<exists>g mesh. single_cell (log 2) single_params d0 = Inr (g, mesh) \<and> g_N g = 2048"
  by (simp add: single_cell_def single_grid_def single_configure_def length_scales_def
      make_grid_def single_params_def dict_defs and_then_def single_N linspace_def
      render_mesh_def)

lemma selected_count:
  assumes "length a = length m"
  shows "length (filter snd (zip a m)) = count_true m"
  using assms by (induction a m rule: list_induct2) (simp_all add: count_true_def)

lemma mask_copy_returns:
  assumes "length b = length m" and "length a = length m"
  shows "\<exists>sel a'. mask_select b m = Inr sel \<and> mask_assign a m (map h sel) = Inr a'"
  using assms selected_count [OF assms(1)] by (simp add: mask_select_def mask_assign_def)

lemma asp_mask_length: "length (asp_mask L f x) = length x"
  by (simp add: asp_mask_def bool_add_def asp1_def asp2_def)

lemma double_cell_returns:
  assumes "double_grid lg ps d0 = Inr g"
  shows "\<exists>mesh. double_cell lg ps d0 = Inr (g, mesh)"
proof -
  let ?n = "nat (g_N g)"
  let ?idx = "asp_mask (g_L g) (c_f ps) (g_x g)"
  let ?mesh = "\<lambda>k. case set_dict_rsf (g_dict g) k of None \<Rightarrow> None
                 | Some v \<Rightarrow> Some (replicate ?n v)"
  have k: "length (g_x g) = ?n" "main (g_dict g) ''N'' = Some (of_int (g_N g))"
    "set_dict_rsf (g_dict g) ''A'' = Some (c_A ps)"
    "set_dict_rsf (g_dict g) ''B'' = Some (c_B ps)"
    using double_grid_Inr [OF assms] by simp_all
  have r: "render_mesh (g_dict g) = Inr ?mesh"
    using k(2) by (simp add: render_mesh_def get_item_def and_then_def cong: option.case_cong)
  have b: "get_mesh ?mesh ''B'' = Inr (replicate ?n (c_B ps))"
    and a: "get_mesh ?mesh ''A'' = Inr (replicate ?n (c_A ps))"
    using k(3,4) by (simp_all add: get_mesh_def)
  have "\<exists>sel a'. mask_select (replicate ?n (c_B ps)) ?idx = Inr sel
      \<and> mask_assign (replicate ?n (c_A ps)) ?idx (map (\<lambda>b. c_ab_ratio ps * b) sel) = Inr a'"
    by (rule mask_copy_returns) (simp_all add: k(1) asp_mask_length)
  then show ?thesis
    using assms r a b by (auto simp add: double_cell_def and_then_def Let_def)
qed

lemma double_grid_notebook:
  "\<exists>g. double_grid (log 2) double_params d0 = Inr g \<and> g_N g = 1024"
  by (simp add: double_grid_def double_configure_def length_scales_def make_grid_def
      double_params_def dict_defs and_then_def double_N linspace_def)

lemma double_cell_notebook:
  "\<exists>g mesh. double_cell (log 2) double_params d0 = Inr (g, mesh) \<and> g_N g = 1024"
  using double_grid_notebook [of d0] double_cell_returns [of "log 2" double_params d0] by blast

text \<open>
  C2.  In both fault-mesh notebooks, whenever the cell that builds the mesh completes,
  the element count \<open>N\<close> is not negative, the coordinate array \<open>x\<close> has exactly
  \<open>N\<close> entries, the array \<open>A\<close> written into the mesh (the formula over \<open>x\<close>
  in the single-asperity notebook, the masked override of the rendered array in the
  double-asperity notebook) has exactly \<open>N\<close> entries, and so has every array of
  the mesh.
\<close>

theorem mesh_arrays_have_N_entries:
  assumes "single_cell lg ps d0 = Inr (g, mesh) \<or> double_cell lg ps d0 = Inr (g, mesh)"
  shows "0 \<le> g_N g \<and> length (g_x g) = nat (g_N g)
       \<and> (\<exists>a. mesh ''A'' = Some a \<and> length a = nat (g_N g))
       \<and> (\<forall>k a. mesh k = Some a \<longrightarrow> length a = nat (g_N g))"
  using assms single_lengths [of lg ps d0 g mesh] double_lengths [of lg ps d0 g mesh] by blast

theorem mesh_arrays_have_N_entries_witness:
  "(\<exists>g mesh. single_cell (log 2) single_params \<lparr>main = Map.empty, set_dict_rsf = Map.empty\<rparr>
          = Inr (g, mesh)
        \<and> g_N g = 2048 \<and> length (g_x g) = 2048
        \<and> (\<exists>a. mesh ''A'' = Some a \<and> length a = 2048))
   \<and> (\<exists>g mesh. double_cell (log 2) double_params \<lparr>main = Map.empty, set_dict_rsf = Map.empty\<rparr>
          = Inr (g, mesh)
        \<and> g_N g = 1024 \<and> length (g_x g) = 1024
        \<and> (\<exists>a. mesh ''A'' = Some a \<and> length a = 1024))"
proof -
  let ?d = "\<lparr>main = Map.empty, set_dict_rsf = Map.empty\<rparr>"
  obtain g mesh where s: "single_cell (log 2) single_params ?d = Inr (g, mesh)"
    and n: "g_N g = 2048"
    using single_cell_notebook [of ?d] by blast
  obtain g' mesh' where s': "double_cell (log 2) double_params ?d = Inr (g', mesh')"
    and n': "g_N g' = 1024"
    using double_cell_notebook [of ?d] by blast
  have "length (g_x g) = 2048 \<and> (\<exists>a. mesh ''A'' = Some a \<and> length a = 2048)"
    using mesh_arrays_have_N_entries [of "log 2" single_params ?d g mesh] s n by simp
  moreover have "length (g_x g') = 1024 \<and> (\<exists>a. mesh' ''A'' = Some a \<and> length a = 1024)"
    using mesh_arrays_have_N_entries [of "log 2" double_params ?d g' mesh'] s' n' by simp
  ultimately show ?thesis using s n s' n' by blast
qed

section \<open>Relations between configuration keys\<close>

lemma single_configure_keys:
  assumes "c_V_PL ps \<noteq> 0"
  shows "\<exists>d. single_configure ps d0 = Inr d
     \<and> main d ''V_PL'' = Some (c_V_PL ps)
     \<and> set_dict_rsf d ''DC'' = Some (c_DC ps)
     \<and> set_dict_rsf d ''V_SS'' = Some (c_V_PL ps)
     \<and> set_dict_rsf d ''TH_0'' = Some (c_DC ps / c_V_PL ps)"
  using assms by (simp add: single_configure_def dict_defs and_then_def)

lemma double_configure_keys:
  assumes "c_V_PL ps \<noteq> 0"
  shows "\<exists>d. double_configure ps d0 = Inr d
     \<and> main d ''V_PL'' = Some (c_V_PL ps)
     \<and> set_dict_rsf d ''DC'' = Some (c_DC ps)
     \<and> set_dict_rsf d ''V_SS'' = Some (c_V_PL ps)
     \<and> set_dict_rsf d ''TH_0'' = Some (c_DC ps / c_V_PL ps)"
  using assms by (simp add: double_configure_def dict_defs and_then_def)

lemma consistent_then_fragile:
  assumes "main d ''V_PL'' = Some v" and "v \<noteq> 0"
    and "set_dict_rsf d ''DC'' = Some dc"
    and "set_dict_rsf d ''V_SS'' = Some v"
    and "set_dict_rsf d ''TH_0'' = Some (dc / v)"
  shows "rsf_consistent d
     \<and> (\<forall>v'. v' \<noteq> v \<longrightarrow> \<not> rsf_consistent (set_item d ''V_PL'' v'))
     \<and> (\<forall>dc'. dc' \<noteq> dc \<longrightarrow> \<not> rsf_consistent (set_rsf d ''DC'' dc'))"
  using assms by (auto simp add: rsf_consistent_def set_item_def set_rsf_def)

text \<open>
  C6.  After the configuration step of each rate-and-state notebook (with a plate
  velocity other than zero) \<open>V_SS\<close> equals \<open>V_PL\<close> and \<open>TH_0\<close> equals
  \<open>DC / V_PL\<close>, by the two direct assignments.  Nothing keeps the relations: a later
  assignment of another value to \<open>V_PL\<close> or to \<open>DC\<close> changes that key alone and
  leaves a dictionary in which they no longer hold.
\<close>

theorem rsf_relations_by_assignment:
  assumes "c_V_PL ps \<noteq> 0"
  shows "(\<exists>d. single_configure ps d0 = Inr d \<and> rsf_consistent d
            \<and> (\<forall>v'. v' \<noteq> c_V_PL ps \<longrightarrow> \<not> rsf_consistent (set_item d ''V_PL'' v'))
            \<and> (\<forall>dc'. dc' \<noteq> c_DC ps \<longrightarrow> \<not> rsf_consistent (set_rsf d ''DC'' dc')))
       \<and> (\<exists>d. double_configure ps d0 = Inr d \<and> rsf_consistent d
            \<and> (\<forall>v'. v' \<noteq> c_V_PL ps \<longrightarrow> \<not> rsf_consistent (set_item d ''V_PL'' v'))
            \<and> (\<forall>dc'. dc' \<noteq> c_DC ps \<longrightarrow> \<not> rsf_consistent (set_rsf d ''DC'' dc')))"
proof -
  obtain d where d: "single_configure ps d0 = Inr d" "main d ''V_PL'' = Some (c_V_PL ps)"
    "set_dict_rsf d ''DC'' = Some (c_DC ps)" "set_dict_rsf d ''V_SS'' = Some (c_V_PL ps)"
    "set_dict_rsf d ''TH_0'' = Some (c_DC ps / c_V_PL ps)"
    using single_configure_keys [OF assms, of d0] by blast
  obtain d' where d': "double_configure ps d0 = Inr d'" "main d' ''V_PL'' = Some (c_V_PL ps)"
    "set_dict_rsf d' ''DC'' = Some (c_DC ps)" "set_dict_rsf d' ''V_SS'' = Some (c_V_PL ps)"
    "set_dict_rsf d' ''TH_0'' = Some (c_DC ps / c_V_PL ps)"
    using double_configure_keys [OF assms, of d0] by blast
  show ?thesis
    using consistent_then_fragile [OF d(2) assms d(3) d(4) d(5)] d(1)
      consistent_then_fragile [OF d'(2) assms d'(3) d'(4) d'(5)] d'(1)
    by blast
qed

theorem rsf_relations_by_assignment_witness:
  "c_V_PL single_params \<noteq> 0
   \<and> (\<exists>d. single_configure single_params \<lparr>main = Map.empty, set_dict_rsf = Map.empty\<rparr> = Inr d
        \<and> rsf_consistent d
        \<and> set_dict_rsf d ''V_SS'' = Some (1 / 10 ^ 9)
        \<and> set_dict_rsf d ''TH_0'' = Some 400000
        \<and> \<not> rsf_consistent (set_item d ''V_PL'' (2 / 10 ^ 9))
        \<and> \<not> rsf_consistent (set_rsf d ''DC'' (1 / 1000)))"
proof -
  let ?d0 = "\<lparr>main = Map.empty, set_dict_rsf = Map.empty\<rparr>"
  have nz: "c_V_PL single_params \<noteq> 0" by (simp add: single_params_def)
  obtain d where d: "single_configure single_params ?d0 = Inr d" "rsf_consistent d"
    "\<forall>v'. v' \<noteq> c_V_PL single_params \<longrightarrow> \<not> rsf_consistent (set_item d ''V_PL'' v')"
    "\<forall>dc'. dc' \<noteq> c_DC single_params \<longrightarrow> \<not> rsf_consistent (set_rsf d ''DC'' dc')"
    using rsf_relations_by_assignment [OF nz, of ?d0] by blast
  have "\<not> rsf_consistent (set_item d ''V_PL'' (2 / 10 ^ 9))"
    using d(3) by (simp add: single_params_def)
  moreover have "\<not> rsf_consistent (set_rsf d ''DC'' (1 / 1000))"
    using d(4) by (simp add: single_params_def)
  moreover have "set_dict_rsf d ''V_SS'' = Some (1 / 10 ^ 9) \<and> set_dict_rsf d ''TH_0'' = Some 400000"
    using d(1) by (auto simp add: single_configure_def dict_defs and_then_def single_params_def)
  ultimately show ?thesis using nz d(1,2) by blast
qed

section \<open>Independence of the mesh construction from the state of the wrapper\<close>

lemma single_cell_independent:
  "mesh_outputs (single_cell lg ps d0) = mesh_outputs (single_cell lg ps d0')"
  by (auto simp add: single_cell_def single_grid_def single_configure_def length_scales_def
      make_grid_def render_mesh_def dict_defs Let_def and_then_def mesh_outputs_def
      split: sum.splits if_splits)

lemma double_cell_independent:
  "mesh_outputs (double_cell lg ps d0) = mesh_outputs (double_cell lg ps d0')"
  by (auto simp add: double_cell_def double_grid_def double_configure_def length_scales_def
      make_grid_def render_mesh_def dict_defs Let_def and_then_def mesh_outputs_def get_mesh_def
      split: sum.splits if_splits)

text \<open>
  C7.  The mesh construction of each notebook is a function of its constants alone:
  from the same constants it gives the same element count, the same coordinate array
  and the same array \<open>A\<close> (or the same exception), whatever the settings dictionary
  of the wrapper held before, in particular what an earlier evaluation of the same cell
  left there.
\<close>

theorem mesh_construction_deterministic:
  "mesh_outputs (single_cell lg ps d0) = mesh_outputs (single_cell lg ps d0')
   \<and> mesh_outputs (double_cell lg ps d0) = mesh_outputs (double_cell lg ps d0')"
  using single_cell_independent double_cell_independent by blast

theorem mesh_construction_deterministic_witness:
  "mesh_outputs (single_cell (log 2) single_params \<lparr>main = Map.empty, set_dict_rsf = Map.empty\<rparr>)
     = mesh_outputs (single_cell (log 2) single_params
         \<lparr>main = [''MU'' \<mapsto> 1, ''SIGMA'' \<mapsto> 0], set_dict_rsf = [''B'' \<mapsto> 5, ''X'' \<mapsto> 2]\<rparr>)
   \<and> mesh_outputs (double_cell (log 2) double_params \<lparr>main = Map.empty, set_dict_rsf = Map.empty\<rparr>)
     = mesh_outputs (double_cell (log 2) double_params
         \<lparr>main = [''MU'' \<mapsto> 1, ''SIGMA'' \<mapsto> 0], set_dict_rsf = [''B'' \<mapsto> 5, ''X'' \<mapsto> 2]\<rparr>)"
  using mesh_construction_deterministic [of "log 2" single_params]
    mesh_construction_deterministic [of "log 2" double_params]
  by blast

section \<open>Scaling of pixel values\<close>

lemma scale_pixel_range:
  "0 \<le> v \<Longrightarrow> v \<le> 255 \<Longrightarrow> 0 \<le> scale_pixel v \<and> scale_pixel v \<le> 1"
  by (simp add: scale_pixel_def)

lemma scale_images_within:
  assumes "pixels_within 0 255 imgs"
  shows "values_within 0 1 (scale_images imgs)"
  using assms scale_pixel_range
  by (auto simp add: pixels_within_def values_within_def scale_images_def list_all_iff)

text \<open>
  C10.  For images whose pixel values are integers in \<open>0..255\<close>, the division by
  255.0 gives values in \<open>[0, 1]\<close>; 0 goes to 0 and 255 goes to 1; and the training
  and the test set go through one and the same function.
\<close>

theorem pixel_scaling:
  assumes "pixels_within 0 255 train" and "pixels_within 0 255 test"
  shows "values_within 0 1 (fst (preprocess (train, test)))
       \<and> values_within 0 1 (snd (preprocess (train, test)))
       \<and> scale_pixel 0 = 0 \<and> scale_pixel 255 = 1
       \<and> preprocess (train, test) = (scale_images train, scale_images test)
       \<and> preprocess (test, train) = prod.swap (preprocess (train, test))"
  using scale_images_within [OF assms(1)] scale_images_within [OF assms(2)]
  by (simp add: preprocess_def scale_pixel_def)

theorem pixel_scaling_witness:
  "pixels_within 0 255 [[[0, 51], [255, 102]]] \<and> pixels_within 0 255 [[[255, 0]]]
   \<and> preprocess ([[[0, 51], [255, 102]]], [[[255, 0]]])
       = ([[[0, 1 / 5], [1, 2 / 5]]], [[[1, 0]]])
   \<and> values_within 0 1 (fst (preprocess ([[[0, 51], [255, 102]]], [[[255, 0]]])))
   \<and> values_within 0 1 (snd (preprocess ([[[0, 51], [255, 102]]], [[[255, 0]]])))"
  using pixel_scaling [of "[[[0, 51], [255, 102]]]" "[[[255, 0]]]"]
  by (simp add: pixels_within_def preprocess_def scale_images_def scale_pixel_def)

section \<open>Order of the pipeline steps\<close>

text \<open>
  C3 as stated fails in the two asperity notebooks: the cell after \<open>p.write_input()\<close>
  plots \<open>(a - b)\<close> over the mesh, before \<open>p.run()\<close> and \<open>p.read_output()\<close>.  With
  every plot counted as the plotting step, the single-asperity notebook is neither in
  the fixed order nor does each of its steps come after a first run of its predecessor.
\<close>

theorem mesh_plot_before_run:
  "\<not> pipeline_ordered (steps single_asperity)
   \<and> \<not> predecessors_first [] (steps single_asperity)"
  by (simp add: steps_def single_asperity_def import_cell_def pipeline_ordered_def follows_def)

text \<open>
  C3 (as amended).  Every simulation notebook sets configuration parameters, then calls
  \<open>p.settings\<close>, \<open>p.render_mesh\<close>, \<open>p.write_input\<close>, \<open>p.run\<close> and
  \<open>p.read_output\<close> in this order, and only then plots the output of the simulation;
  a second round, as in the CNS notebook, starts again with configuration.
\<close>

theorem notebooks_follow_pipeline:
  "pipeline_ordered (output_steps single_asperity)
   \<and> pipeline_ordered (output_steps double_asperity)
   \<and> pipeline_ordered (output_steps cns_spring_block)"
  by (simp add: output_steps_def single_asperity_def double_asperity_def cns_spring_block_def
      import_cell_def pipeline_ordered_def follows_def)

section \<open>Errors of the wrapper\<close>

lemma notebooks_error_handling_free: "list_all error_handling_free notebooks_code"
  by code_simp

lemma notebook_branches:
  "branch_tests single_asperity_code = [] \<and> branch_tests double_asperity_code = []
   \<and> branch_tests cns_spring_block_code = []
   \<and> branch_tests mnist_basic_code
       = [CompareE (NameE ''pred_num'') ''=='' (SubscriptE (NameE ''test_labels'') (NameE ''n''))]"
  by code_simp

lemma self_in_substmts: "s \<in> set (substmts s)"
  by (cases s) simp_all

lemma cell_statements:
  assumes "cell \<in> set nb" and "c \<in> set cell"
  shows "c \<in> set (statements nb)"
  using assms self_in_substmts [of c] by (auto simp add: statements_def)

lemma run_step:
  assumes "\<not> handles_errors a"
  shows "run sem (a # cell) s0 =
      (case sem a s0 of (None, s1) \<Rightarrow> run sem cell s1
       | (Some e, s1) \<Rightarrow> (Some e, s1, [(a, e, s1)]))"
  using assms by (cases a) (auto split: prod.splits option.splits)

lemma run_plain:
  assumes "\<And>a. a \<in> set cell \<Longrightarrow> \<not> handles_errors a"
    and "run sem cell s0 = (r, s, raised)" and "(c, e, s2) \<in> set raised"
  shows "r = Some e \<and> s = s2"
  using assms
proof (induction cell arbitrary: s0)
  case Nil
  then show ?case by simp
next
  case (Cons a cell)
  have na: "\<not> handles_errors a" using Cons.prems(1) by simp
  obtain o1 s1 where sa: "sem a s0 = (o1, s1)" by (cases "sem a s0")
  show ?case
  proof (cases o1)
    case None
    then have "run sem cell s1 = (r, s, raised)"
      using Cons.prems(2) run_step [OF na, of sem cell s0] sa by simp
    then show ?thesis using Cons.IH [of s1] Cons.prems(1,3) by simp
  next
    case (Some e')
    then have "run sem (a # cell) s0 = (Some e', s1, [(a, e', s1)])"
      using run_step [OF na, of sem cell s0] sa by simp
    then have "r = Some e'" and "s = s1" and "raised = [(a, e', s1)]"
      using Cons.prems(2) by simp_all
    then show ?thesis using Cons.prems(3) by simp
  qed
qed

text \<open>
  Where a cell does handle errors the same error does not reach the caller: inside a
  \<open>try\<close> the failure of \<open>p.run()\<close> is raised and the cell completes.
\<close>

lemma try_swallows:
  "run (\<lambda>c s. if c = ExprS (CallE (AttrE (NameE ''p'') ''run'') [])
                then (Some ''solver failed'', s + 100) else (None, s + 1))
        [TryS [ExprS (CallE (AttrE (NameE ''p'') ''run'') [])] []] (0::nat)
     = (None, 100, [(ExprS (CallE (AttrE (NameE ''p'') ''run'') []), ''solver failed'', 100)])"
  by simp

text \<open>
  C8.  No notebook of the repository has a statement that defines, raises or handles an
  error (\<open>try\<close>, \<open>raise\<close>, \<open>assert\<close>, \<open>with\<close>, a class definition), every call
  of a pipeline method of the wrapper is a statement of its own whose result is
  discarded, and the only test the repository branches on compares a predicted digit
  with its label.  So in every cell of every notebook, whatever the statements do: an
  error that a statement raises is the result of the cell, together with the state the
  failing statement left, and no later statement runs.
\<close>

theorem errors_reach_the_caller:
  assumes "nb \<in> set notebooks_code" and "cell \<in> set nb"
    and "run sem cell s0 = (r, s, raised)" and "(c, e, s2) \<in> set raised"
  shows "error_handling_free nb \<and> r = Some e \<and> s = s2
       \<and> branch_tests single_asperity_code = [] \<and> branch_tests double_asperity_code = []
       \<and> branch_tests cns_spring_block_code = []
       \<and> branch_tests mnist_basic_code
           = [CompareE (NameE ''pred_num'') ''==''
                (SubscriptE (NameE ''test_labels'') (NameE ''n''))]"
proof -
  have free: "error_handling_free nb"
    using notebooks_error_handling_free assms(1) by (simp add: list_all_iff)
  have "\<not> handles_errors a" if "a \<in> set cell" for a
    using free cell_statements [OF assms(2) that]
    by (simp add: error_handling_free_def list_all_iff)
  then have "r = Some e \<and> s = s2" using run_plain [OF _ assms(3,4)] by blast
  then show ?thesis using free notebook_branches by simp
qed

theorem errors_reach_the_caller_witness:
  "cns_spring_block_code \<in> set notebooks_code
   \<and> cns_spring_block_code ! 8 \<in> set cns_spring_block_code
   \<and> run (\<lambda>c s. if c = ExprS (CallE (AttrE (NameE ''p'') ''run'') [])
                  then (Some ''solver failed'', s + 100) else (None, s + 1))
        (cns_spring_block_code ! 8) (0::nat)
       = (Some ''solver failed'', 104,
          [(ExprS (CallE (AttrE (NameE ''p'') ''run'') []), ''solver failed'', 104)])
   \<and> error_handling_free cns_spring_block_code"
proof -
  let ?sem = "\<lambda>c s. if c = ExprS (CallE (AttrE (NameE ''p'') ''run'') [])
                  then (Some ''solver failed'', s + 100) else (None, s + (1::nat))"
  let ?run = "ExprS (CallE (AttrE (NameE ''p'') ''run'') [])"
  have nb: "cns_spring_block_code \<in> set notebooks_code" by (simp add: notebooks_code_def)
  have cell: "cns_spring_block_code ! 8 \<in> set cns_spring_block_code"
    by (rule nth_mem) (simp add: cns_spring_block_code_def)
  have r: "run ?sem (cns_spring_block_code ! 8) 0
      = (Some ''solver failed'', 104, [(?run, ''solver failed'', 104)])"
    by (simp add: cns_spring_block_code_def)
  have m: "(?run, ''solver failed'', 104) \<in> set [(?run, ''solver failed'', 104::nat)]" by simp
  show ?thesis using errors_reach_the_caller [OF nb cell r m] nb cell r by simp
qed

section \<open>Components of the classifier\<close>

lemma classifier_models:
  "models_prebuilt (expressions mnist_basic_code)
   \<and> length (calls_of ''keras.Sequential'' (expressions mnist_basic_code)) = 2"
  by code_simp

lemma classifier_compile:
  "calls_of ''model.compile'' (expressions mnist_basic_code)
     = [[KwE ''optimizer'' (StrE ''adam''),
         KwE ''loss'' (StrE ''sparse_categorical_crossentropy''),
         KwE ''metrics'' (ListE [StrE ''accuracy''])],
        [KwE ''optimizer'' (StrE ''adam''),
         KwE ''loss'' (StrE ''sparse_categorical_crossentropy''),
         KwE ''metrics'' (ListE [StrE ''accuracy''])]]"
  by code_simp

lemma classifier_model_calls:
  "model_calls (expressions mnist_basic_code)
     = [''compile'', ''summary'', ''fit'', ''evaluate'', ''predict'', ''compile'', ''fit'']"
  by code_simp

lemma classifier_names:
  "list_all (\<lambda>d. d \<in> set framework_names) (framework_refs (expressions mnist_basic_code))"
  by code_simp

lemma classifier_nothing_defined:
  "framework_refs (loop_exprs mnist_basic_code) = []
   \<and> filter is_definition (statements mnist_basic_code) = []
   \<and> filter is_lambda (expressions mnist_basic_code) = []
   \<and> filter is_aug_assign (statements mnist_basic_code) = []"
  by code_simp

lemma classifier_arithmetic:
  "filter is_arithmetic (expressions mnist_basic_code)
   = [BinOpE (BinOpE (NameE ''i'') ''*'' (LitE ''10'')) ''+'' (NameE ''j''),
      BinOpE (NameE ''i'') ''*'' (LitE ''10''),
      BinOpE (StrE ''%d'') ''%'' (SubscriptE (NameE ''train_labels'') (NameE ''n'')),
      BinOpE (NameE ''train_images'') ''/'' (LitE ''255.0''),
      BinOpE (NameE ''test_images'') ''/'' (LitE ''255.0''),
      BinOpE (StrE ''Test accuracy: %.4f'') ''%'' (NameE ''test_acc''),
      BinOpE (BinOpE (NameE ''i'') ''*'' (LitE ''10'')) ''+'' (NameE ''j''),
      BinOpE (NameE ''i'') ''*'' (LitE ''10''),
      BinOpE (StrE ''%d / %d'') ''%''
        (TupleE [SubscriptE (NameE ''test_labels'') (NameE ''n''), NameE ''pred_num''])]"
  by code_simp

text \<open>
  C9.  In the classifier notebook every model is a \<open>keras.Sequential\<close> of layers that
  are \<open>keras.layers.Flatten\<close> or \<open>keras.layers.Dense\<close> with an activation function
  of \<open>tf.nn\<close>; both calls of \<open>compile\<close> pass the strings \<open>"adam"\<close> and
  \<open>"sparse_categorical_crossentropy"\<close>; the methods called on a model are
  \<open>compile\<close>, \<open>summary\<close>, \<open>fit\<close>, \<open>evaluate\<close> and \<open>predict\<close>, so that
  training is by \<open>fit\<close> alone; every name of the framework that the notebook uses is
  one of these or of the data set; no loop touches the framework; the notebook defines
  no function, class or lambda and updates no variable in place; and its only
  arithmetic is the scaling by 255.0, the index \<open>i*10 + j\<close> and the formatting of
  strings.
\<close>

theorem classifier_is_prebuilt:
  "models_prebuilt (expressions mnist_basic_code)
   \<and> length (calls_of ''keras.Sequential'' (expressions mnist_basic_code)) = 2
   \<and> calls_of ''model.compile'' (expressions mnist_basic_code)
       = [[KwE ''optimizer'' (StrE ''adam''),
           KwE ''loss'' (StrE ''sparse_categorical_crossentropy''),
           KwE ''metrics'' (ListE [StrE ''accuracy''])],
          [KwE ''optimizer'' (StrE ''adam''),
           KwE ''loss'' (StrE ''sparse_categorical_crossentropy''),
           KwE ''metrics'' (ListE [StrE ''accuracy''])]]
   \<and> model_calls (expressions mnist_basic_code)
       = [''compile'', ''summary'', ''fit'', ''evaluate'', ''predict'', ''compile'', ''fit'']
   \<and> list_all (\<lambda>d. d \<in> set framework_names) (framework_refs (expressions mnist_basic_code))
   \<and> framework_refs (loop_exprs mnist_basic_code) = []
   \<and> filter is_definition (statements mnist_basic_code) = []
   \<and> filter is_lambda (expressions mnist_basic_code) = []
   \<and> filter is_aug_assign (statements mnist_basic_code) = []
   \<and> filter is_arithmetic (expressions mnist_basic_code)
       = [BinOpE (BinOpE (NameE ''i'') ''*'' (LitE ''10'')) ''+'' (NameE ''j''),
          BinOpE (NameE ''i'') ''*'' (LitE ''10''),
          BinOpE (StrE ''%d'') ''%'' (SubscriptE (NameE ''train_labels'') (NameE ''n'')),
          BinOpE (NameE ''train_images'') ''/'' (LitE ''255.0''),
          BinOpE (NameE ''test_images'') ''/'' (LitE ''255.0''),
          BinOpE (StrE ''Test accuracy: %.4f'') ''%'' (NameE ''test_acc''),
          BinOpE (BinOpE (NameE ''i'') ''*'' (LitE ''10'')) ''+'' (NameE ''j''),
          BinOpE (NameE ''i'') ''*'' (LitE ''10''),
          BinOpE (StrE ''%d / %d'') ''%''
            (TupleE [SubscriptE (NameE ''test_labels'') (NameE ''n''), NameE ''pred_num''])]"
  using classifier_models classifier_compile classifier_model_calls classifier_names
    classifier_nothing_defined classifier_arithmetic
  by simp

end
